theory Spec2Isabelle
  imports Complex_Main "HOL-Library.Char_ord" "HOL-Library.List_Lexorder"
begin

unbundle bit_operations_syntax

section \<open>Python values and exceptions\<close>

text \<open>
  The values that travel through the client: decoded JSON bodies, query parameters and
  the keyword arguments of the cache key.  A float is kept as the text Python prints for
  it; no arithmetic on floats is modelled.  A dict is an association list in insertion
  order.
\<close>

datatype pyval =
    PNone
  | PBool bool
  | PInt int
  | PFloat string
  | PStr string
  | PList "pyval list"
  | PDict "(string \<times> pyval) list"

text \<open>
  The text of an exception is built by f-strings from literals and from \<open>str(v)\<close> of
  values taken from a response; the pieces are kept apart instead of rendering \<open>str\<close>.
\<close>

datatype part = Lit string | Val pyval

type_synonym message = "part list"

text \<open>
  The exception classes of \<open>src/utils/errors.py\<close> that the client meets, the three kinds of
  exception the HTTP library raises (\<open>httpx.TimeoutException\<close>, \<open>httpx.ConnectError\<close>, any
  other), and the built-in ones the modelled code can raise.
\<close>

datatype exn =
    AuthenticationError message
  | RateLimitError message
  | APIConnectionError message
  | APITimeoutError message
  | InvalidResponseError message
  | APIError message
  | InvalidParameterError string message
  | CryptocurrencyNotFoundError message
  | TimeoutException string
  | ConnectError string
  | HTTPError string
  | JSONDecodeError string
  | AttributeError string string
  | KeyError string
  | ZeroDivisionError
  | ValidationError
  | TypeError
  | ValueError string

text \<open>\<open>str(e)\<close>: every class above passes its message to \<open>Exception.__init__\<close>.\<close>

fun type_name :: "pyval \<Rightarrow> string" where
  "type_name PNone = ''NoneType''"
| "type_name (PBool _) = ''bool''"
| "type_name (PInt _) = ''int''"
| "type_name (PFloat _) = ''float''"
| "type_name (PStr _) = ''str''"
| "type_name (PList _) = ''list''"
| "type_name (PDict _) = ''dict''"

fun str_exn :: "exn \<Rightarrow> message" where
  "str_exn (AuthenticationError m) = m"
| "str_exn (RateLimitError m) = m"
| "str_exn (APIConnectionError m) = m"
| "str_exn (APITimeoutError m) = m"
| "str_exn (InvalidResponseError m) = m"
| "str_exn (APIError m) = m"
| "str_exn (InvalidParameterError p m) = m"
| "str_exn (CryptocurrencyNotFoundError m) = m"
| "str_exn (TimeoutException s) = [Lit s]"
| "str_exn (ConnectError s) = [Lit s]"
| "str_exn (HTTPError s) = [Lit s]"
| "str_exn (JSONDecodeError s) = [Lit s]"
| "str_exn (AttributeError t a) =
     [Lit (CHR 0x27 # t @ CHR 0x27 # '' object has no attribute '' @ CHR 0x27 # a @ [CHR 0x27])]"
| "str_exn (KeyError k) = [Lit (CHR 0x27 # k @ [CHR 0x27])]"
| "str_exn ZeroDivisionError = [Lit ''division by zero'']"
| "str_exn ValidationError = [Lit ''validation error'']"
| "str_exn TypeError = [Lit ''argument after ** must be a mapping'']"
| "str_exn (ValueError s) = [Lit s]"

text \<open>
  The constructors of \<open>InvalidParameterError\<close> and \<open>CryptocurrencyNotFoundError\<close> replace a
  message that is \<open>None\<close> by a default text.
\<close>

definition mk_InvalidParameterError :: "string \<Rightarrow> pyval \<Rightarrow> exn" where
  "mk_InvalidParameterError parameter m =
     InvalidParameterError parameter
       (if m = PNone then [Lit ''Invalid parameter: '', Lit parameter] else [Val m])"

definition mk_CryptocurrencyNotFoundError :: "pyval \<Rightarrow> exn" where
  "mk_CryptocurrencyNotFoundError m =
     CryptocurrencyNotFoundError
       (if m = PNone then [Lit ''Cryptocurrency not found''] else [Val m])"

section \<open>The error classifier (\<open>handle_api_error\<close>)\<close>

text \<open>\<open>d.get(key, default)\<close>; only a dict has it.\<close>

fun py_get :: "pyval \<Rightarrow> string \<Rightarrow> pyval \<Rightarrow> exn + pyval" where
  "py_get (PDict d) k dflt = Inr (case map_of d k of None \<Rightarrow> dflt | Some v \<Rightarrow> v)"
| "py_get v k dflt = Inl (AttributeError (type_name v) ''get'')"

definition error_message_of :: "pyval \<Rightarrow> exn + pyval" where
  "error_message_of response_data =
     (case py_get response_data ''status'' (PDict []) of
        Inl e \<Rightarrow> Inl e
      | Inr st \<Rightarrow> py_get st ''error_message'' (PStr ''Unknown error''))"

text \<open>\<open>handle_api_error\<close> never returns: its value here is the exception it raises.\<close>

definition handle_api_error :: "int \<Rightarrow> pyval \<Rightarrow> exn" where
  "handle_api_error status_code response_data =
     (case error_message_of response_data of
        Inl e \<Rightarrow> e
      | Inr error_message \<Rightarrow>
          if status_code = 401 then AuthenticationError [Val error_message]
          else if status_code = 429 then RateLimitError [Val error_message]
          else if status_code = 400 then mk_InvalidParameterError ''request'' error_message
          else if status_code = 404 then mk_CryptocurrencyNotFoundError error_message
          else if status_code \<ge> 500 then
            APIConnectionError [Lit ''Server error: '', Val error_message]
          else
            APIError [Lit ''API error (status '', Val (PInt status_code), Lit ''): '',
                      Val error_message])"

section \<open>The token bucket (\<open>RateLimiter\<close>)\<close>

text \<open>
  The bucket reads the wall clock (\<open>time.time()\<close>) on every access; the reading is an
  argument here.  Token counts are Python floats after the first refill and are modelled
  as exact reals.  A division by a zero period or a zero capacity raises, as in Python.
\<close>

record RateLimiter =
  requests_per_period :: int
  period_seconds :: int
  tokens :: real
  last_update :: real

definition RateLimiter_init :: "int \<Rightarrow> int \<Rightarrow> real \<Rightarrow> RateLimiter" where
  "RateLimiter_init rpp period time =
     \<lparr>requests_per_period = rpp, period_seconds = period,
      tokens = of_int rpp, last_update = time\<rparr>"

definition refill_tokens :: "real \<Rightarrow> RateLimiter \<Rightarrow> exn + RateLimiter" where
  "refill_tokens time rl =
     (let elapsed = time - last_update rl in
      if period_seconds rl = 0 then Inl ZeroDivisionError
      else
        let tokens_to_add =
              (elapsed / of_int (period_seconds rl)) * of_int (requests_per_period rl)
        in Inr (rl\<lparr>tokens := min (of_int (requests_per_period rl)) (tokens rl + tokens_to_add),
                    last_update := time\<rparr>))"

definition acquire :: "int \<Rightarrow> real \<Rightarrow> RateLimiter \<Rightarrow> exn + (bool \<times> RateLimiter)" where
  "acquire n time rl =
     (case refill_tokens time rl of
        Inl e \<Rightarrow> Inl e
      | Inr rl' \<Rightarrow>
          if tokens rl' \<ge> of_int n then Inr (True, rl'\<lparr>tokens := tokens rl' - of_int n\<rparr>)
          else Inr (False, rl'))"

section \<open>The world: clock and observable events\<close>

text \<open>
  The clock advances only while the caller sleeps.  The events record, in order, what the
  client does to the outside: acquisitions from the bucket, sleeps and HTTP requests.
\<close>

datatype event =
    TokenAcquired int
  | TokenDenied int
  | Slept real
  | HttpGet string "(string \<times> pyval) list"
  | HttpPost string "(string \<times> pyval) list"

record world =
  now :: real
  events :: "event list"

definition emit :: "event \<Rightarrow> world \<Rightarrow> world" where
  "emit e w = w\<lparr>events := events w @ [e]\<rparr>"

text \<open>\<open>asyncio.sleep(d)\<close>: a delay that is not positive returns at once.\<close>

definition sleep :: "real \<Rightarrow> world \<Rightarrow> world" where
  "sleep d w = emit (Slept d) (w\<lparr>now := now w + max 0 d\<rparr>)"

text \<open>
  \<open>wait_for_token\<close> polls \<open>acquire\<close> in a loop with no bound; \<open>None\<close> is a loop that
  never ends.
\<close>

partial_function (option) wait_for_token ::
  "int \<Rightarrow> RateLimiter \<Rightarrow> world \<Rightarrow> ((exn + unit) \<times> RateLimiter \<times> world) option" where
  "wait_for_token n rl w =
     (case acquire n (now w) rl of
        Inl e \<Rightarrow> Some (Inl e, rl, w)
      | Inr (ok, rl') \<Rightarrow>
          if ok then Some (Inr (), rl', emit (TokenAcquired n) w)
          else if requests_per_period rl' = 0
            then Some (Inl ZeroDivisionError, rl', emit (TokenDenied n) w)
          else
            let wait_time =
                  (of_int n - tokens rl') / of_int (requests_per_period rl')
                    * of_int (period_seconds rl')
            in wait_for_token n rl' (sleep (max (1 / 10) wait_time) (emit (TokenDenied n) w)))"

section \<open>The request executor (\<open>CoinMarketCapClient._make_request\<close>)\<close>

text \<open>
  What one HTTP call gives back: the HTTP library raises, or a response arrives.  Of a
  response the client reads the status code, the decoded body (\<open>response.json()\<close>, which
  raises on a body that is not JSON) and the raw text.
\<close>

record response =
  status_code :: int
  json_body :: "string + pyval"
  text_body :: string

datatype outcome = Raises exn | Responds response

definition sanitize_parameters :: "(string \<times> pyval) list \<Rightarrow> (string \<times> pyval) list" where
  "sanitize_parameters params = filter (\<lambda>(k, v). v \<noteq> PNone) params"

definition error_data_of :: "response \<Rightarrow> pyval" where
  "error_data_of r =
     (case json_body r of
        Inr v \<Rightarrow> v
      | Inl _ \<Rightarrow> PDict [(''status'', PDict [(''error_message'', PStr (text_body r))])])"

text \<open>The body of the \<open>try\<close> block for one HTTP call, after the call came back.\<close>

fun attempt :: "outcome \<Rightarrow> exn + pyval" where
  "attempt (Raises e) = Inl e"
| "attempt (Responds r) =
     (if status_code r = 200 then
        (case json_body r of Inl m \<Rightarrow> Inl (JSONDecodeError m) | Inr data \<Rightarrow> Inr data)
      else Inl (handle_api_error (status_code r) (error_data_of r)))"

text \<open>
  The \<open>except\<close> clauses, in the source's order: a timeout and a connect failure are
  recorded as the last exception, an authentication or rate-limit error is raised again,
  anything else is recorded as a generic \<open>APIError\<close>.
\<close>

datatype handled = Reraise exn | Recorded exn

fun handle_exn :: "exn \<Rightarrow> handled" where
  "handle_exn (TimeoutException s) =
     Recorded (APITimeoutError [Lit ''Request timeout: '', Lit s])"
| "handle_exn (ConnectError s) =
     Recorded (APIConnectionError [Lit ''Connection failed: '', Lit s])"
| "handle_exn (AuthenticationError m) = Reraise (AuthenticationError m)"
| "handle_exn (RateLimitError m) = Reraise (RateLimitError m)"
| "handle_exn e = Recorded (APIError (Lit ''Unexpected error: '' # str_exn e))"

text \<open>
  The \<open>while retries <= self.max_retries\<close> loop.  \<open>srv k\<close> is what the \<open>k\<close>-th HTTP call of
  this request gives back; \<open>req\<close> is the request that every iteration sends.
\<close>

function request_loop ::
  "int \<Rightarrow> (nat \<Rightarrow> outcome) \<Rightarrow> event \<Rightarrow> int \<Rightarrow> exn option \<Rightarrow> world \<Rightarrow> (exn + pyval) \<times> world" where
  "request_loop max_retries srv req retries last_exception w =
     (if retries \<le> max_retries then
        (let w1 = emit req w in
         case attempt (srv (nat retries)) of
           Inr data \<Rightarrow> (Inr data, w1)
         | Inl e \<Rightarrow>
             (case handle_exn e of
                Reraise e' \<Rightarrow> (Inl e', w1)
              | Recorded le \<Rightarrow>
                  request_loop max_retries srv req (retries + 1) (Some le)
                    (if retries + 1 \<le> max_retries then sleep (2 ^ nat (retries + 1)) w1
                     else w1)))
      else
        (Inl (case last_exception of
                Some e \<Rightarrow> e
              | None \<Rightarrow> APIError [Lit ''Max retries exceeded'']), w))"
  by pat_completeness auto
termination
  by (relation "measure (\<lambda>(m, srv, req, r, l, w). nat (m + 1 - r))") auto

record client =
  base_url :: string
  max_retries :: int

text \<open>The request that \<open>_make_request\<close> sends, on the first attempt and on every retry.\<close>

definition request_event ::
  "client \<Rightarrow> string \<Rightarrow> (string \<times> pyval) list option \<Rightarrow> string \<Rightarrow> event" where
  "request_event c endpoint params verb =
     (let url = base_url c @ ''/'' @ endpoint;
          params' = sanitize_parameters (case params of None \<Rightarrow> [] | Some p \<Rightarrow> p)
      in if verb = ''GET'' then HttpGet url params' else HttpPost url params')"

definition make_request ::
  "client \<Rightarrow> (nat \<Rightarrow> outcome) \<Rightarrow> string \<Rightarrow> (string \<times> pyval) list option \<Rightarrow> string \<Rightarrow>
     RateLimiter \<Rightarrow> world \<Rightarrow> ((exn + pyval) \<times> RateLimiter \<times> world) option" where
  "make_request c srv endpoint params verb rl w =
     (case wait_for_token 1 rl w of
        None \<Rightarrow> None
      | Some (Inl e, rl', w') \<Rightarrow> Some (Inl e, rl', w')
      | Some (Inr u, rl', w') \<Rightarrow>
          (case request_loop (max_retries c) srv (request_event c endpoint params verb)
                  0 None w' of
             (res, w'') \<Rightarrow> Some (res, rl', w'')))"

text \<open>What a finished call raised or returned, and the events it left.\<close>

definition run_result :: "('r \<times> RateLimiter \<times> world) option \<Rightarrow> 'r option" where
  "run_result run = map_option fst run"

definition run_events :: "('r \<times> RateLimiter \<times> world) option \<Rightarrow> event list option" where
  "run_events run = map_option (events \<circ> snd \<circ> snd) run"

fun is_http :: "event \<Rightarrow> bool" where
  "is_http (HttpGet u p) = True"
| "is_http (HttpPost u p) = True"
| "is_http e = False"

fun is_acquired :: "event \<Rightarrow> bool" where
  "is_acquired (TokenAcquired n) = True"
| "is_acquired e = False"

definition http_attempts :: "event list \<Rightarrow> nat" where
  "http_attempts es = length (filter is_http es)"

text \<open>
  The events of a wait for one token that ends: the token at once, or one refusal, one
  sleep and then the token.
\<close>

definition token_wait :: "event list \<Rightarrow> bool" where
  "token_wait es \<longleftrightarrow>
     es = [TokenAcquired 1] \<or> (\<exists>d. es = [TokenDenied 1, Slept d, TokenAcquired 1])"

text \<open>
  \<open>n + 1\<close> sendings of \<open>req\<close> with a sleep of \<open>2 ^ k\<close> seconds before the \<open>k\<close>-th retry:
  for \<open>n = 3\<close> the request, 2 s, the request, 4 s, the request, 8 s, the request.
\<close>

definition backoff_trace :: "event \<Rightarrow> nat \<Rightarrow> event list" where
  "backoff_trace req n =
     concat (map (\<lambda>k. req # (if k < n then [Slept (2 ^ (k + 1))] else [])) [0..<n + 1])"

text \<open>
  The property that every HTTP request has a token acquisition of its own: scanning the
  events, \<open>fresh\<close> tells whether a token was acquired since the last request.
\<close>

fun token_per_attempt :: "bool \<Rightarrow> event list \<Rightarrow> bool" where
  "token_per_attempt fresh [] = True"
| "token_per_attempt fresh (TokenAcquired n # es) = token_per_attempt True es"
| "token_per_attempt fresh (HttpGet u p # es) = (fresh \<and> token_per_attempt False es)"
| "token_per_attempt fresh (HttpPost u p # es) = (fresh \<and> token_per_attempt False es)"
| "token_per_attempt fresh (e # es) = token_per_attempt fresh es"

text \<open>What an outcome leaves as \<open>last_exception\<close> when the loop goes on after it.\<close>

definition recorded_of :: "outcome \<Rightarrow> exn option" where
  "recorded_of out =
     (case attempt out of
        Inr _ \<Rightarrow> None
      | Inl e \<Rightarrow> (case handle_exn e of Reraise _ \<Rightarrow> None | Recorded le \<Rightarrow> Some le))"



definition bad_request :: "outcome \<Rightarrow> bool" where
  "bad_request out =
     (case out of Responds r \<Rightarrow> status_code r = 400 \<or> status_code r = 404 | Raises e \<Rightarrow> False)"

section \<open>Concrete inputs\<close>

definition demo_client :: client where
  "demo_client = \<lparr>base_url = ''https://pro-api.coinmarketcap.com/v1'', max_retries = 3\<rparr>"

definition demo_limiter :: RateLimiter where
  "demo_limiter = RateLimiter_init 30 60 0"

definition demo_world :: world where
  "demo_world = \<lparr>now = 0, events = []\<rparr>"

definition demo_params :: "(string \<times> pyval) list" where
  "demo_params = [(''convert'', PStr ''USD''), (''symbol'', PStr ''BTC'')]"

definition demo_request :: event where
  "demo_request =
     HttpGet ''https://pro-api.coinmarketcap.com/v1/cryptocurrency/quotes/latest'' demo_params"

definition error_body :: "int \<Rightarrow> string \<Rightarrow> response" where
  "error_body code msg =
     \<lparr>status_code = code,
      json_body = Inr (PDict [(''status'',
                    PDict [(''error_code'', PInt code), (''error_message'', PStr msg)])]),
      text_body = []\<rparr>"

definition ok_body :: "pyval \<Rightarrow> response" where
  "ok_body data =
     \<lparr>status_code = 200,
      json_body = Inr (PDict [(''status'', PDict [(''error_code'', PInt 0)]), (''data'', data)]),
      text_body = []\<rparr>"

text \<open>Servers for the examples: one that always answers the same, one that answers from a list.\<close>

definition always :: "outcome \<Rightarrow> nat \<Rightarrow> outcome" where
  "always out k = out"

definition replies :: "outcome list \<Rightarrow> outcome \<Rightarrow> nat \<Rightarrow> outcome" where
  "replies outs rest k = (if k < length outs then outs ! k else rest)"

section \<open>Properties of the executor\<close>

declare request_loop.simps [simp del]

lemma acquire_after_sleep:
  assumes p: "0 < period_seconds rl" and c: "1 \<le> requests_per_period rl"
    and a: "acquire 1 t rl = Inr (False, rl1)"
    and d: "d = max (1 / 10) ((1 - tokens rl1) / of_int (requests_per_period rl1) * of_int (period_seconds rl1))"
  shows "\<exists>rl2. acquire 1 (t + max 0 d) rl1 = Inr (True, rl2)"
proof -
  from a p have rl1: "period_seconds rl1 = period_seconds rl" "requests_per_period rl1 = requests_per_period rl"
    "last_update rl1 = t" "tokens rl1 < 1"
    by (auto simp: acquire_def refill_tokens_def Let_def split: if_splits)
  let ?P = "real_of_int (period_seconds rl)"
  let ?C = "real_of_int (requests_per_period rl)"
  have P: "0 < ?P" and C: "1 \<le> ?C" using p c by auto
  have d0: "0 \<le> d" using d by simp
  have "(1 - tokens rl1) / ?C * ?P \<le> d" using d rl1 by simp
  then have "(1 - tokens rl1) / ?C \<le> d / ?P" using P by (simp add: pos_le_divide_eq)
  then have "1 - tokens rl1 \<le> d / ?P * ?C" using C by (simp add: pos_divide_le_eq)
  then have "1 \<le> tokens rl1 + d / ?P * ?C" by simp
  then have "1 \<le> min ?C (tokens rl1 + d / ?P * ?C)" using C by simp
  then show ?thesis using rl1 p d0
    by (simp add: acquire_def refill_tokens_def Let_def max_def)
qed

lemma wait_for_token_returns:
  assumes p: "0 < period_seconds rl" and c: "1 \<le> requests_per_period rl"
  shows "\<exists>rl' w'. wait_for_token 1 rl w = Some (Inr (), rl', w')
           \<and> now w \<le> now w'
           \<and> (events w' = events w @ [TokenAcquired 1]
                \<or> (\<exists>d. events w' = events w @ [TokenDenied 1, Slept d, TokenAcquired 1]))"
proof -
  from p have "\<exists>x. acquire 1 (now w) rl = Inr x"
    by (auto simp add: acquire_def refill_tokens_def Let_def)
  then obtain ok rl1 where a: "acquire 1 (now w) rl = Inr (ok, rl1)"
    by force
  show ?thesis
  proof (cases ok)
    case True
    with a show ?thesis
      by (subst wait_for_token.simps) (simp add: emit_def)
  next
    case False
    from a p c have rl1: "period_seconds rl1 = period_seconds rl"
      "requests_per_period rl1 = requests_per_period rl"
      by (auto simp: acquire_def refill_tokens_def Let_def split: if_splits)
    define d where "d = max (1 / 10) ((1 - tokens rl1) / of_int (requests_per_period rl1) * of_int (period_seconds rl1))"
    from a False have a': "acquire 1 (now w) rl = Inr (False, rl1)" by simp
    from acquire_after_sleep[OF p c a' d_def]
    obtain rl2 where a2: "acquire 1 (now w + max 0 d) rl1 = Inr (True, rl2)" by blast
    have step1: "wait_for_token 1 rl w = wait_for_token 1 rl1 (sleep d (emit (TokenDenied 1) w))"
      using a False c rl1 by (subst wait_for_token.simps) (simp add: d_def Let_def)
    have step2: "wait_for_token 1 rl1 (sleep d (emit (TokenDenied 1) w))
        = Some (Inr (), rl2, emit (TokenAcquired 1) (sleep d (emit (TokenDenied 1) w)))"
      using a2 by (subst wait_for_token.simps) (simp add: sleep_def emit_def)
    show ?thesis unfolding step1 step2
      by (simp add: sleep_def emit_def)
  qed
qed

lemma request_loop_result:
  assumes "0 \<le> r" "\<forall>k. nat r \<le> k \<and> k \<le> nat m \<longrightarrow> recorded_of (srv k) \<noteq> None"
  shows "fst (request_loop m srv req r lx w) =
     Inl (if r \<le> m then the (recorded_of (srv (nat m)))
          else (case lx of Some e \<Rightarrow> e | None \<Rightarrow> APIError [Lit ''Max retries exceeded'']))"
  using assms
proof (induction m srv req r lx w rule: request_loop.induct)
  case (1 m srv req r lx w)
  show ?case
  proof (cases "r \<le> m")
    case False
    then show ?thesis by (subst request_loop.simps) simp
  next
    case True
    with 1(2,3) have rec: "recorded_of (srv (nat r)) \<noteq> None" by auto
    then obtain e le where e: "attempt (srv (nat r)) = Inl e" "handle_exn e = Recorded le"
      by (auto simp: recorded_of_def split: sum.splits handled.splits)
    have IH: "fst (request_loop m srv req (r + 1) (Some le) (if r + 1 \<le> m then sleep (2 ^ nat (r + 1)) (emit req w) else emit req w))
      = Inl (if r + 1 \<le> m then the (recorded_of (srv (nat m))) else le)"
    proof -
      have r1: "0 \<le> r + 1" using 1(2) by simp
      have pre: "\<forall>k. nat (r + 1) \<le> k \<and> k \<le> nat m \<longrightarrow> recorded_of (srv k) \<noteq> None"
      proof (intro allI impI)
        fix k assume k: "nat (r + 1) \<le> k \<and> k \<le> nat m"
        then have "nat r \<le> k \<and> k \<le> nat m" by linarith
        with 1(3) show "recorded_of (srv k) \<noteq> None" by blast
      qed
      show ?thesis using 1(1)[OF True refl e(1) e(2) r1 pre] by simp
    qed
    show ?thesis
    proof (cases "r + 1 \<le> m")
      case True
      with IH \<open>r \<le> m\<close> e show ?thesis by (subst request_loop.simps) (simp add: Let_def)
    next
      case False
      with True have "r = m" by simp
      with IH False e show ?thesis by (subst request_loop.simps) (simp add: Let_def recorded_of_def)
    qed
  qed
qed


lemma request_loop_events:
  assumes "0 \<le> r" "\<forall>k. nat r \<le> k \<and> k \<le> nat m \<longrightarrow> recorded_of (srv k) \<noteq> None"
  shows "events (snd (request_loop m srv req r lx w)) = events w @
     concat (map (\<lambda>k. req # (if int k < m then [Slept (2 ^ (k + 1))] else [])) [nat r..<nat (m + 1)])"
  using assms
proof (induction m srv req r lx w rule: request_loop.induct)
  case (1 m srv req r lx w)
  show ?case
  proof (cases "r \<le> m")
    case False
    then show ?thesis using 1(2) by (subst request_loop.simps) simp
  next
    case True
    with 1(2,3) have rec: "recorded_of (srv (nat r)) \<noteq> None" by auto
    then obtain e le where e: "attempt (srv (nat r)) = Inl e" "handle_exn e = Recorded le"
      by (auto simp: recorded_of_def split: sum.splits handled.splits)
    have r1: "0 \<le> r + 1" using 1(2) by simp
    have pre: "\<forall>k. nat (r + 1) \<le> k \<and> k \<le> nat m \<longrightarrow> recorded_of (srv k) \<noteq> None"
    proof (intro allI impI)
      fix k assume k: "nat (r + 1) \<le> k \<and> k \<le> nat m"
      then have "nat r \<le> k \<and> k \<le> nat m" by linarith
      with 1(3) show "recorded_of (srv k) \<noteq> None" by blast
    qed
    note IH = 1(1)[OF True refl e(1) e(2) r1 pre]
    have "nat r < nat (m + 1)" using True 1(2) by linarith
    moreover have "Suc (nat r) = nat (r + 1)" using 1(2) by linarith
    ultimately have upt: "[nat r..<nat (m + 1)] = nat r # [nat (r + 1)..<nat (m + 1)]"
      using upt_conv_Cons[of "nat r" "nat (m + 1)"] by simp
    have lt: "int (nat r) < m \<longleftrightarrow> r + 1 \<le> m" using 1(2) by auto
    have pw: "(2::real) ^ nat (r + 1) = 2 ^ (nat r + 1)" using 1(2) by (simp add: nat_add_distrib)
    define w2 where "w2 = (if r + 1 \<le> m then sleep (2 ^ nat (r + 1)) (emit req w) else emit req w)"
    have step: "request_loop m srv req r lx w = request_loop m srv req (r + 1) (Some le) w2"
      using True e by (subst request_loop.simps) (simp add: Let_def w2_def)
    have ev2: "events w2 = events w @ req # (if int (nat r) < m then [Slept (2 ^ (nat r + 1))] else [])"
      unfolding lt pw[symmetric] by (simp add: w2_def sleep_def emit_def)
    show ?thesis
      unfolding step IH[folded w2_def] ev2 upt by simp
  qed
qed

lemma backoff_trace_eq:
  "0 \<le> m \<Longrightarrow> concat (map (\<lambda>k. req # (if int k < m then [Slept (2 ^ (k + 1))] else [])) [nat 0..<nat (m + 1)])
    = backoff_trace req (nat m)"
  unfolding backoff_trace_def
  by (rule arg_cong[where f = concat]) (auto simp: nat_add_distrib)

lemma request_loop_returns:
  assumes "0 \<le> m" "attempt (srv 0) = Inr data"
  shows "request_loop m srv req 0 lx w = (Inr data, emit req w)"
  using assms by (subst request_loop.simps) (simp add: Let_def)

lemma request_loop_reraises:
  assumes "0 \<le> m" "attempt (srv 0) = Inl e" "handle_exn e = Reraise e'"
  shows "request_loop m srv req 0 lx w = (Inl e', emit req w)"
  using assms by (subst request_loop.simps) (simp add: Let_def)

lemma request_loop_extends:
  assumes "\<not> is_acquired req"
  shows "\<exists>post. events (snd (request_loop m srv req r lx w)) = events w @ post
           \<and> filter is_acquired post = []"
  using assms
proof (induction m srv req r lx w rule: request_loop.induct)
  case (1 m srv req r lx w)
  show ?case
  proof (cases "r \<le> m")
    case False
    then show ?thesis by (subst request_loop.simps) simp
  next
    case True
    show ?thesis
    proof (cases "attempt (srv (nat r))")
      case (Inr data)
      with True 1(2) show ?thesis
        by (subst request_loop.simps) (simp add: Let_def emit_def)
    next
      case (Inl e)
      show ?thesis
      proof (cases "handle_exn e")
        case (Reraise e')
        with True Inl 1(2) show ?thesis
          by (subst request_loop.simps) (simp add: Let_def emit_def)
      next
        case (Recorded le)
        define w2 where
          "w2 = (if r + 1 \<le> m then sleep (2 ^ nat (r + 1)) (emit req w) else emit req w)"
        have step: "request_loop m srv req r lx w = request_loop m srv req (r + 1) (Some le) w2"
          using True Inl Recorded by (subst request_loop.simps) (simp add: Let_def w2_def)
        have "\<exists>p. events w2 = events w @ p \<and> filter is_acquired p = []"
          using 1(2) by (simp add: w2_def sleep_def emit_def)
        then obtain p where p: "events w2 = events w @ p" "filter is_acquired p = []" by blast
        from 1(1)[OF True refl Inl Recorded 1(2), folded w2_def] obtain q
          where q: "events (snd (request_loop m srv req (r + 1) (Some le) w2)) = events w2 @ q"
            "filter is_acquired q = []" by blast
        from p q have "events (snd (request_loop m srv req (r + 1) (Some le) w2)) = events w @ (p @ q)
            \<and> filter is_acquired (p @ q) = []" by simp
        then show ?thesis unfolding step by blast
      qed
    qed
  qed
qed


lemma request_event_not_acquired: "\<not> is_acquired (request_event c endpoint params verb)"
  by (simp add: request_event_def Let_def)

lemma request_event_is_http: "is_http (request_event c endpoint params verb)"
  by (simp add: request_event_def Let_def)

lemma make_request_run:
  assumes "0 < period_seconds rl" "1 \<le> requests_per_period rl"
  shows "\<exists>rl' w1 pre. token_wait pre \<and> events w1 = events w @ pre
           \<and> make_request c srv endpoint params verb rl w =
               Some (fst (request_loop (max_retries c) srv
                            (request_event c endpoint params verb) 0 None w1), rl',
                     snd (request_loop (max_retries c) srv
                            (request_event c endpoint params verb) 0 None w1))"
proof -
  from wait_for_token_returns[OF assms, of w] obtain rl' w1
    where run: "wait_for_token 1 rl w = Some (Inr (), rl', w1)"
      and ev: "events w1 = events w @ [TokenAcquired 1]
                 \<or> (\<exists>d. events w1 = events w @ [TokenDenied 1, Slept d, TokenAcquired 1])"
    by blast
  from ev obtain pre where "token_wait pre" "events w1 = events w @ pre"
    unfolding token_wait_def by blast
  moreover have "make_request c srv endpoint params verb rl w =
      Some (fst (request_loop (max_retries c) srv
                   (request_event c endpoint params verb) 0 None w1), rl',
            snd (request_loop (max_retries c) srv
                   (request_event c endpoint params verb) 0 None w1))"
    by (simp add: make_request_def run split: prod.splits)
  ultimately show ?thesis by blast
qed

lemma http_attempts_append: "http_attempts (xs @ ys) = http_attempts xs + http_attempts ys"
  by (simp add: http_attempts_def)

lemma http_attempts_token_wait: "token_wait pre \<Longrightarrow> http_attempts pre = 0"
  by (auto simp: token_wait_def http_attempts_def)

lemma http_attempts_backoff_aux:
  "is_http req \<Longrightarrow>
   length (filter is_http (concat (map (\<lambda>k. req # (if P k then [Slept (g k)] else [])) ks)))
     = length ks"
  by (induction ks) auto

lemma http_attempts_backoff_trace: "is_http req \<Longrightarrow> http_attempts (backoff_trace req n) = n + 1"
  unfolding http_attempts_def backoff_trace_def
  by (simp add: http_attempts_backoff_aux)


lemma py_get_raises: "py_get v k dflt = Inl e \<Longrightarrow> \<exists>t. e = AttributeError t ''get''"
  by (cases v) auto

lemma error_message_of_raises:
  "error_message_of d = Inl e \<Longrightarrow> \<exists>t. e = AttributeError t ''get''"
  by (auto simp: error_message_of_def split: sum.splits dest: py_get_raises)

lemma handle_api_error_400_404:
  assumes "s = 400 \<or> s = 404"
  shows "\<exists>m. handle_exn (handle_api_error s d) =
           Recorded (APIError (Lit ''Unexpected error: '' # m))"
proof (cases "error_message_of d")
  case (Inl e)
  with error_message_of_raises[OF Inl] show ?thesis
    by (auto simp: handle_api_error_def)
next
  case (Inr m)
  with assms show ?thesis
    by (auto simp: handle_api_error_def mk_InvalidParameterError_def
        mk_CryptocurrencyNotFoundError_def)
qed

lemma recorded_of_bad_request:
  "bad_request out \<Longrightarrow>
     \<exists>m. recorded_of out = Some (APIError (Lit ''Unexpected error: '' # m))"
proof (cases out)
  case (Raises e)
  assume "bad_request out" with Raises show ?thesis by (simp add: bad_request_def)
next
  case (Responds r)
  assume "bad_request out"
  with Responds have s: "status_code r = 400 \<or> status_code r = 404" by (simp add: bad_request_def)
  from handle_api_error_400_404[OF s, of "error_data_of r"] obtain m where
    "handle_exn (handle_api_error (status_code r) (error_data_of r)) =
       Recorded (APIError (Lit ''Unexpected error: '' # m))" by blast
  with s Responds show ?thesis by (auto simp: recorded_of_def)
qed

lemma make_request_exhausts:
  assumes lim: "0 < period_seconds rl" "1 \<le> requests_per_period rl"
    and m: "0 \<le> max_retries c"
    and rec: "\<forall>k. int k \<le> max_retries c \<longrightarrow> recorded_of (srv k) \<noteq> None"
  shows "\<exists>rl' w' pre le.
     make_request c srv endpoint params verb rl w = Some (Inl le, rl', w')
     \<and> recorded_of (srv (nat (max_retries c))) = Some le
     \<and> token_wait pre
     \<and> events w' = events w @ pre
          @ backoff_trace (request_event c endpoint params verb) (nat (max_retries c))
     \<and> http_attempts (events w') = http_attempts (events w) + nat (max_retries c) + 1"
proof -
  let ?req = "request_event c endpoint params verb"
  let ?m = "max_retries c"
  from make_request_run[OF lim, of w c srv endpoint params verb] obtain rl' w1 pre where
    pre: "token_wait pre" "events w1 = events w @ pre" and
    run: "make_request c srv endpoint params verb rl w =
            Some (fst (request_loop ?m srv ?req 0 None w1), rl',
                  snd (request_loop ?m srv ?req 0 None w1))"
    by blast
  have rec': "\<forall>k. nat 0 \<le> k \<and> k \<le> nat ?m \<longrightarrow> recorded_of (srv k) \<noteq> None"
    using rec m by (auto simp: le_nat_iff)
  from rec m obtain le where le: "recorded_of (srv (nat ?m)) = Some le" by fastforce
  have res: "fst (request_loop ?m srv ?req 0 None w1) = Inl le"
    using request_loop_result[OF order_refl rec', of ?req None w1] m le by simp
  have ev: "events (snd (request_loop ?m srv ?req 0 None w1))
      = events w @ pre @ backoff_trace ?req (nat ?m)"
    using request_loop_events[OF order_refl rec', of ?req None w1] backoff_trace_eq[OF m, of ?req] pre
    by simp
  have n: "http_attempts (events w @ pre @ backoff_trace ?req (nat ?m))
      = http_attempts (events w) + nat ?m + 1"
    by (simp add: http_attempts_append http_attempts_token_wait[OF pre(1)]
        http_attempts_backoff_trace[OF request_event_is_http])
  show ?thesis
    using run res ev n le pre(1) by (metis)
qed


section \<open>The classifier and the executor: the claims\<close>

text \<open>
  On a body from which \<open>handle_api_error\<close> can read the message (a JSON object whose
  \<open>status\<close>, when present, is an object), the classifier maps the status as follows: 401
  gives \<open>AuthenticationError\<close>, 429 \<open>RateLimitError\<close>, 400 \<open>InvalidParameterError\<close>, 404
  \<open>CryptocurrencyNotFoundError\<close>, every status from 500 on \<open>APIConnectionError\<close>, and
  every other status a generic \<open>APIError\<close> whose text carries the code.  A timeout and a
  connect failure of the transport are turned into \<open>APITimeoutError\<close> and
  \<open>APIConnectionError\<close> from the exception alone, with no body read.
\<close>

theorem handle_api_error_classifies:
  assumes "error_message_of response_data = Inr msg"
  shows "handle_api_error 401 response_data = AuthenticationError [Val msg]
    \<and> handle_api_error 429 response_data = RateLimitError [Val msg]
    \<and> handle_api_error 400 response_data =
          InvalidParameterError ''request''
            (if msg = PNone then [Lit ''Invalid parameter: '', Lit ''request''] else [Val msg])
    \<and> handle_api_error 404 response_data =
          CryptocurrencyNotFoundError
            (if msg = PNone then [Lit ''Cryptocurrency not found''] else [Val msg])
    \<and> (500 \<le> status \<longrightarrow>
          handle_api_error status response_data =
            APIConnectionError [Lit ''Server error: '', Val msg])
    \<and> (status < 500 \<and> status \<notin> {400, 401, 404, 429} \<longrightarrow>
          handle_api_error status response_data =
            APIError [Lit ''API error (status '', Val (PInt status), Lit ''): '', Val msg])
    \<and> handle_exn (TimeoutException t) =
          Recorded (APITimeoutError [Lit ''Request timeout: '', Lit t])
    \<and> handle_exn (ConnectError t) =
          Recorded (APIConnectionError [Lit ''Connection failed: '', Lit t])"
  using assms
  by (simp add: handle_api_error_def mk_InvalidParameterError_def
      mk_CryptocurrencyNotFoundError_def)

theorem handle_api_error_classifies_witness:
  "error_message_of (error_data_of (error_body 503 ''down'')) = Inr (PStr ''down'')
   \<and> handle_api_error 401 (error_data_of (error_body 503 ''down''))
        = AuthenticationError [Val (PStr ''down'')]
   \<and> handle_api_error 400 (error_data_of (error_body 503 ''down''))
        = InvalidParameterError ''request'' [Val (PStr ''down'')]
   \<and> handle_api_error 404 (error_data_of (error_body 503 ''down''))
        = CryptocurrencyNotFoundError [Val (PStr ''down'')]
   \<and> handle_api_error 503 (error_data_of (error_body 503 ''down''))
        = APIConnectionError [Lit ''Server error: '', Val (PStr ''down'')]
   \<and> handle_api_error 418 (error_data_of (error_body 503 ''down''))
        = APIError [Lit ''API error (status '', Val (PInt 418), Lit ''): '', Val (PStr ''down'')]"
proof -
  have h: "error_message_of (error_data_of (error_body 503 ''down'')) = Inr (PStr ''down'')"
    by (simp add: error_message_of_def error_data_of_def error_body_def)
  from handle_api_error_classifies[OF h, of 503 t] handle_api_error_classifies[OF h, of 418 t]
  show ?thesis using h by simp
qed

text \<open>
  A response whose JSON body is not of the expected shape: the upstream API, or a proxy in
  front of it, answers with the given status and a JSON object whose only entry is
  \<open>status\<close>, with the status code as its value.
\<close>

definition bare_status_body :: "int \<Rightarrow> response" where
  "bare_status_body code =
     \<lparr>status_code = code, json_body = Inr (PDict [(''status'', PInt code)]), text_body = []\<rparr>"

text \<open>
  C8.  The claim is what \<open>handle_api_error\<close> documents (it raises the appropriate
  exception based on the error type) and what its tests expect, and the code departs
  from it: the message is read from the \<open>status\<close> entry of the body, by two chained \<open>get\<close>
  calls, before the status code is looked at, and that line raises \<open>AttributeError\<close> when
  the body is not an object or its \<open>status\<close> is not one.  The classifier then gives, for
  every status code, an exception outside the typed errors: for 401 and a body whose
  \<open>status\<close> is null, for 404 and a body that is an empty list, for 429 and a body whose
  \<open>status\<close> is the number 429, for 503 and a body whose \<open>status\<close> is a string.
\<close>

theorem classifier_raises_attribute_error_on_unreadable_body:
  "handle_api_error 401 (PDict [(''status'', PNone)]) = AttributeError ''NoneType'' ''get''
   \<and> handle_api_error 404 (PList []) = AttributeError ''list'' ''get''
   \<and> handle_api_error 429 (error_data_of (bare_status_body 429)) = AttributeError ''int'' ''get''
   \<and> handle_api_error 503 (PDict [(''status'', PStr ''down'')]) = AttributeError ''str'' ''get''"
  by (simp add: handle_api_error_def error_message_of_def error_data_of_def bare_status_body_def)

text \<open>
  When the first HTTP call is answered with status 401 or 429 and a body from which the
  message can be read, the call sends exactly one HTTP request and raises the
  \<open>AuthenticationError\<close> or \<open>RateLimitError\<close> at once, whatever \<open>max_retries\<close> allows.  The
  bucket is one that can give a token (capacity at least 1, positive period), so that the
  wait before the first request ends.
\<close>

theorem auth_and_rate_limit_errors_not_retried:
  assumes "0 < period_seconds rl" and "1 \<le> requests_per_period rl"
    and "0 \<le> max_retries c"
    and "srv 0 = Responds r"
    and "status_code r = 401 \<or> status_code r = 429"
    and "error_message_of (error_data_of r) = Inr msg"
  shows "\<exists>rl' w' pre.
     make_request c srv endpoint params verb rl w =
       Some (Inl (if status_code r = 401 then AuthenticationError [Val msg]
                  else RateLimitError [Val msg]), rl', w')
     \<and> token_wait pre
     \<and> events w' = events w @ pre @ [request_event c endpoint params verb]
     \<and> http_attempts (events w') = http_attempts (events w) + 1"
proof -
  let ?req = "request_event c endpoint params verb"
  let ?e = "if status_code r = 401 then AuthenticationError [Val msg] else RateLimitError [Val msg]"
  from make_request_run[OF assms(1,2), of w c srv endpoint params verb] obtain rl' w1 pre where
    pre: "token_wait pre" "events w1 = events w @ pre" and
    run: "make_request c srv endpoint params verb rl w =
            Some (fst (request_loop (max_retries c) srv ?req 0 None w1), rl',
                  snd (request_loop (max_retries c) srv ?req 0 None w1))"
    by blast
  have cls: "handle_api_error (status_code r) (error_data_of r) = ?e"
    using assms(5,6) by (auto simp: handle_api_error_def)
  have att: "attempt (srv 0) = Inl ?e"
    using assms(4,5) cls by auto
  have hdl: "handle_exn ?e = Reraise ?e" by simp
  have loop: "request_loop (max_retries c) srv ?req 0 None w1 = (Inl ?e, emit ?req w1)"
    using request_loop_reraises[of "max_retries c" srv ?e ?e ?req None w1] assms(3) att hdl
    by simp
  have ev: "events (emit ?req w1) = events w @ pre @ [?req]"
    using pre(2) by (simp add: emit_def)
  have n: "http_attempts (events w @ pre @ [?req]) = http_attempts (events w) + 1"
    using request_event_is_http[of c endpoint params verb]
    by (simp add: http_attempts_append http_attempts_token_wait[OF pre(1)])
       (simp add: http_attempts_def)
  show ?thesis
    using run loop ev n pre(1) by (intro exI[of _ rl'] exI[of _ "emit ?req w1"] exI[of _ pre]) simp
qed

theorem auth_and_rate_limit_errors_not_retried_witness:
  "\<exists>rl' w' pre.
     make_request demo_client (always (Responds (error_body 429 ''Rate limit exceeded'')))
         ''cryptocurrency/quotes/latest'' (Some demo_params) ''GET'' demo_limiter demo_world =
       Some (Inl (RateLimitError [Val (PStr ''Rate limit exceeded'')]), rl', w')
     \<and> token_wait pre
     \<and> events w' = pre @ [demo_request]
     \<and> http_attempts (events w') = 1"
proof -
  have "0 < period_seconds demo_limiter" "1 \<le> requests_per_period demo_limiter"
    "0 \<le> max_retries demo_client"
    "always (Responds (error_body 429 ''Rate limit exceeded'')) 0
       = Responds (error_body 429 ''Rate limit exceeded'')"
    "status_code (error_body 429 ''Rate limit exceeded'') = 401
       \<or> status_code (error_body 429 ''Rate limit exceeded'') = 429"
    "error_message_of (error_data_of (error_body 429 ''Rate limit exceeded''))
       = Inr (PStr ''Rate limit exceeded'')"
    by (simp_all add: demo_limiter_def RateLimiter_init_def demo_client_def always_def
        error_body_def error_message_of_def error_data_of_def)
  from auth_and_rate_limit_errors_not_retried[
      where srv = "always (Responds (error_body 429 ''Rate limit exceeded''))"
        and r = "error_body 429 ''Rate limit exceeded''" and rl = demo_limiter
        and c = demo_client and msg = "PStr ''Rate limit exceeded''"
        and endpoint = "''cryptocurrency/quotes/latest''" and params = "Some demo_params"
        and verb = "''GET''" and w = demo_world, OF this]
  show ?thesis
    by (simp add: error_body_def demo_world_def http_attempts_def request_event_def
        demo_client_def demo_request_def sanitize_parameters_def demo_params_def)
qed

text \<open>
  C7.  The claim is what the code itself says of these errors (its comment: auth and rate
  limit errors are not retried), and the code departs from it: an answer with status 401
  whose JSON body has the number 401 as its \<open>status\<close> makes \<open>handle_api_error\<close> raise
  \<open>AttributeError\<close> instead of \<open>AuthenticationError\<close>; the catch-all clause records it, and
  with \<open>max_retries = 3\<close> the request is sent four times, with the backoff sleeps, before
  a generic \<open>APIError\<close> is raised.  The same happens for status 429.
\<close>

theorem auth_error_with_unreadable_body_is_retried:
  "run_result (make_request demo_client (always (Responds (bare_status_body 401)))
        ''cryptocurrency/quotes/latest'' (Some demo_params) ''GET'' demo_limiter demo_world)
     = Some (Inl (APIError (Lit ''Unexpected error: '' # str_exn (AttributeError ''int'' ''get''))))
   \<and> run_events (make_request demo_client (always (Responds (bare_status_body 401)))
        ''cryptocurrency/quotes/latest'' (Some demo_params) ''GET'' demo_limiter demo_world)
     = Some [TokenAcquired 1, demo_request, Slept 2, demo_request, Slept 4, demo_request,
             Slept 8, demo_request]
   \<and> run_result (make_request demo_client (always (Responds (bare_status_body 429)))
        ''cryptocurrency/quotes/latest'' (Some demo_params) ''GET'' demo_limiter demo_world)
     = Some (Inl (APIError (Lit ''Unexpected error: '' # str_exn (AttributeError ''int'' ''get''))))
   \<and> run_events (make_request demo_client (always (Responds (bare_status_body 429)))
        ''cryptocurrency/quotes/latest'' (Some demo_params) ''GET'' demo_limiter demo_world)
     = Some [TokenAcquired 1, demo_request, Slept 2, demo_request, Slept 4, demo_request,
             Slept 8, demo_request]"
  apply (simp add: make_request_def run_result_def run_events_def)
  apply (subst wait_for_token.simps)
  apply (subst (2) wait_for_token.simps)
  apply (subst (3) wait_for_token.simps)
  apply (subst (4) wait_for_token.simps)
  apply (simp add: demo_limiter_def RateLimiter_init_def demo_world_def acquire_def
      refill_tokens_def Let_def demo_client_def always_def bare_status_body_def
      request_loop.simps handle_api_error_def error_message_of_def error_data_of_def
      emit_def sleep_def request_event_def demo_request_def sanitize_parameters_def
      demo_params_def split: prod.splits)
  done



text \<open>
  C1, as the claim states it, fails: with the default \<open>max_retries = 3\<close>, a request that is
  always answered with status 400 is sent four times, with the backoff sleeps in between,
  and what reaches the caller is the generic \<open>APIError\<close> of the catch-all clause, not the
  \<open>InvalidParameterError\<close> that \<open>handle_api_error\<close> raised.
\<close>

theorem bad_request_terminal_counterexample:
  "run_result (make_request demo_client (always (Responds (error_body 400 ''Invalid value'')))
        ''cryptocurrency/quotes/latest'' (Some demo_params) ''GET'' demo_limiter demo_world)
     = Some (Inl (APIError [Lit ''Unexpected error: '', Val (PStr ''Invalid value'')]))
   \<and> run_result (make_request demo_client (always (Responds (error_body 400 ''Invalid value'')))
        ''cryptocurrency/quotes/latest'' (Some demo_params) ''GET'' demo_limiter demo_world)
     \<noteq> Some (Inl (handle_api_error 400 (error_data_of (error_body 400 ''Invalid value''))))
   \<and> run_events (make_request demo_client (always (Responds (error_body 400 ''Invalid value'')))
        ''cryptocurrency/quotes/latest'' (Some demo_params) ''GET'' demo_limiter demo_world)
     = Some [TokenAcquired 1, demo_request, Slept 2, demo_request, Slept 4, demo_request,
             Slept 8, demo_request]
   \<and> http_attempts [TokenAcquired 1, demo_request, Slept 2, demo_request, Slept 4,
                     demo_request, Slept 8, demo_request] = 4"
  apply (simp add: make_request_def run_result_def run_events_def)
  apply (subst wait_for_token.simps)
  apply (subst (2) wait_for_token.simps)
  apply (subst (3) wait_for_token.simps)
  apply (simp add: demo_limiter_def RateLimiter_init_def demo_world_def acquire_def
      refill_tokens_def Let_def demo_client_def always_def error_body_def request_loop.simps
      handle_api_error_def error_message_of_def error_data_of_def mk_InvalidParameterError_def
      emit_def sleep_def request_event_def demo_request_def sanitize_parameters_def
      demo_params_def http_attempts_def split: prod.splits)
  done

text \<open>
  C1, amended: status 400 and status 404 are not terminal for the executor.  When every
  HTTP call of a request is answered with status 400 or 404, the call sends
  \<open>max_retries + 1\<close> requests with the backoff sleeps in between, and then raises the
  error recorded at the last attempt, which is a generic \<open>APIError\<close> whose text starts
  with "Unexpected error: ".
\<close>

theorem bad_request_and_not_found_are_retried:
  assumes "0 < period_seconds rl" and "1 \<le> requests_per_period rl"
    and "0 \<le> max_retries c"
    and "\<forall>k. int k \<le> max_retries c \<longrightarrow> bad_request (srv k)"
  shows "\<exists>rl' w' pre m.
     make_request c srv endpoint params verb rl w =
       Some (Inl (APIError (Lit ''Unexpected error: '' # m)), rl', w')
     \<and> recorded_of (srv (nat (max_retries c))) = Some (APIError (Lit ''Unexpected error: '' # m))
     \<and> token_wait pre
     \<and> events w' = events w @ pre
          @ backoff_trace (request_event c endpoint params verb) (nat (max_retries c))
     \<and> http_attempts (events w') = http_attempts (events w) + nat (max_retries c) + 1"
proof -
  have rec: "\<forall>k. int k \<le> max_retries c \<longrightarrow> recorded_of (srv k) \<noteq> None"
    using assms(4) recorded_of_bad_request by fastforce
  from make_request_exhausts[OF assms(1,2,3) rec, of endpoint params verb w]
  obtain rl' w' pre le where
    run: "make_request c srv endpoint params verb rl w = Some (Inl le, rl', w')"
      "recorded_of (srv (nat (max_retries c))) = Some le"
      "token_wait pre"
      "events w' = events w @ pre
         @ backoff_trace (request_event c endpoint params verb) (nat (max_retries c))"
      "http_attempts (events w') = http_attempts (events w) + nat (max_retries c) + 1"
    by blast
  from assms(3,4) have "bad_request (srv (nat (max_retries c)))" by simp
  from recorded_of_bad_request[OF this] run(2) obtain m
    where "le = APIError (Lit ''Unexpected error: '' # m)" by auto
  with run show ?thesis by blast
qed

theorem bad_request_and_not_found_are_retried_witness:
  "\<exists>rl' w' pre m.
     make_request demo_client (always (Responds (error_body 404 ''No such coin'')))
         ''cryptocurrency/quotes/latest'' (Some demo_params) ''GET'' demo_limiter demo_world =
       Some (Inl (APIError (Lit ''Unexpected error: '' # m)), rl', w')
     \<and> token_wait pre
     \<and> events w' = pre @ backoff_trace demo_request 3
     \<and> http_attempts (events w') = 4"
proof -
  have lim: "0 < period_seconds demo_limiter" "1 \<le> requests_per_period demo_limiter"
    "0 \<le> max_retries demo_client"
    by (simp_all add: demo_limiter_def RateLimiter_init_def demo_client_def)
  have bad: "\<forall>k. int k \<le> max_retries demo_client \<longrightarrow>
               bad_request (always (Responds (error_body 404 ''No such coin'')) k)"
    by (simp add: always_def bad_request_def error_body_def)
  have rq: "request_event demo_client ''cryptocurrency/quotes/latest'' (Some demo_params) ''GET''
      = demo_request"
    by (simp add: request_event_def demo_client_def demo_request_def sanitize_parameters_def
        demo_params_def)
  have n3: "nat (max_retries demo_client) = 3" by (simp add: demo_client_def)
  from bad_request_and_not_found_are_retried[OF lim bad,
      of "''cryptocurrency/quotes/latest''" "Some demo_params" "''GET''" demo_world]
  show ?thesis
    unfolding rq n3 by (simp add: demo_world_def http_attempts_def) blast
qed




text \<open>
  C4, as the claim states it, fails: the token is acquired once, before the loop.  After
  a timeout on the first call, the retry is sent with no new acquisition.
\<close>

theorem retry_without_token_counterexample:
  "run_events (make_request demo_client
        (replies [Raises (TimeoutException ''Timeout'')] (Responds (ok_body (PDict []))))
        ''cryptocurrency/quotes/latest'' (Some demo_params) ''GET'' demo_limiter demo_world)
     = Some [TokenAcquired 1, demo_request, Slept 2, demo_request]
   \<and> \<not> token_per_attempt False [TokenAcquired 1, demo_request, Slept 2, demo_request]"
  apply (simp add: make_request_def run_events_def)
  apply (subst wait_for_token.simps)
  apply (simp add: demo_limiter_def RateLimiter_init_def demo_world_def acquire_def
      refill_tokens_def Let_def demo_client_def replies_def ok_body_def request_loop.simps
      emit_def sleep_def request_event_def demo_request_def sanitize_parameters_def
      demo_params_def split: prod.splits)
  done

text \<open>
  C4, amended: the executor acquires one token per logical call, before the first HTTP
  request; the attempts that follow, the first one and every retry, are sent without any
  further acquisition.
\<close>

theorem token_acquired_once_per_call:
  assumes "0 < period_seconds rl" and "1 \<le> requests_per_period rl"
  shows "\<exists>res rl' w' pre post.
     make_request c srv endpoint params verb rl w = Some (res, rl', w')
     \<and> events w' = events w @ pre @ post
     \<and> token_wait pre
     \<and> filter is_acquired post = []
     \<and> length (filter is_acquired (events w')) = length (filter is_acquired (events w)) + 1"
proof -
  let ?req = "request_event c endpoint params verb"
  from make_request_run[OF assms, of w c srv endpoint params verb] obtain rl' w1 pre where
    pre: "token_wait pre" "events w1 = events w @ pre" and
    run: "make_request c srv endpoint params verb rl w =
            Some (fst (request_loop (max_retries c) srv ?req 0 None w1), rl',
                  snd (request_loop (max_retries c) srv ?req 0 None w1))"
    by blast
  from request_loop_extends[where req = ?req and m = "max_retries c" and srv = srv and r = 0
      and lx = None and w = w1, OF request_event_not_acquired]
  obtain post where
    post: "events (snd (request_loop (max_retries c) srv ?req 0 None w1)) = events w1 @ post"
      "filter is_acquired post = []"
    by blast
  have one: "length (filter is_acquired pre) = 1"
    using pre(1) by (auto simp: token_wait_def)
  have "length (filter is_acquired (events w @ pre @ post))
      = length (filter is_acquired (events w)) + 1"
    using one post(2) by simp
  with run post pre show ?thesis
    by (intro exI[of _ "fst (request_loop (max_retries c) srv ?req 0 None w1)"] exI[of _ rl']
        exI[of _ "snd (request_loop (max_retries c) srv ?req 0 None w1)"] exI[of _ pre]
        exI[of _ post]) simp
qed

theorem token_acquired_once_per_call_witness:
  "\<exists>res rl' w' pre post.
     make_request demo_client
        (replies [Raises (TimeoutException ''Timeout'')] (Responds (ok_body (PDict []))))
        ''cryptocurrency/quotes/latest'' (Some demo_params) ''GET'' demo_limiter demo_world
       = Some (res, rl', w')
     \<and> events w' = pre @ post
     \<and> token_wait pre
     \<and> filter is_acquired post = []
     \<and> length (filter is_acquired (events w')) = 1"
proof -
  have lim: "0 < period_seconds demo_limiter" "1 \<le> requests_per_period demo_limiter"
    by (simp_all add: demo_limiter_def RateLimiter_init_def)
  from token_acquired_once_per_call[OF lim, of demo_client
      "replies [Raises (TimeoutException ''Timeout'')] (Responds (ok_body (PDict [])))"
      "''cryptocurrency/quotes/latest''" "Some demo_params" "''GET''" demo_world]
  show ?thesis by (simp add: demo_world_def)
qed

section \<open>Sequences of operations on the token bucket\<close>












section \<open>The response cache (\<open>CryptoCache\<close>)\<close>

text \<open>
  \<open>CryptoCache\<close> keeps its entries in a \<open>cachetools.TTLCache\<close>, a library class that is not
  part of the repository.  It is modelled here as the library documents it: every entry
  carries the time at which it expires (the time of its last \<open>set\<close> plus the fixed ttl), an
  entry is visible while the timer is before that time, a \<open>set\<close> first drops the expired
  entries and then, for a new key, drops entries from the least recently used end until
  the new one fits, and a \<open>get\<close> of a visible entry makes it the most recently used.  The
  entries are listed from the least to the most recently used.  The timer reading is an
  argument of every operation.
\<close>

record entry =
  ekey :: string
  evalue :: pyval
  expires :: real

record TTLCache =
  maxsize :: int
  ttl :: int
  links :: "entry list"

definition ttl_expire :: "real \<Rightarrow> TTLCache \<Rightarrow> TTLCache" where
  "ttl_expire time c = c\<lparr>links := filter (\<lambda>e. time < expires e) (links c)\<rparr>"

text \<open>\<open>cache.get(key)\<close>, with the default \<open>None\<close>.\<close>

definition ttl_get :: "real \<Rightarrow> string \<Rightarrow> TTLCache \<Rightarrow> pyval \<times> TTLCache" where
  "ttl_get time key c =
     (case find (\<lambda>e. ekey e = key) (links c) of
        None \<Rightarrow> (PNone, c)
      | Some e \<Rightarrow>
          if time < expires e
          then (evalue e, c\<lparr>links := filter (\<lambda>x. ekey x \<noteq> key) (links c) @ [e]\<rparr>)
          else (PNone, c))"

text \<open>The loop \<open>while currsize + size > maxsize: popitem()\<close>, every entry of size 1.\<close>

fun evict_until_fits :: "int \<Rightarrow> entry list \<Rightarrow> entry list" where
  "evict_until_fits m [] = []"
| "evict_until_fits m (e # es) =
     (if int (length (e # es)) + 1 > m then evict_until_fits m es else e # es)"

text \<open>
  \<open>cache[key] = value\<close>.  A cache whose \<open>maxsize\<close> is below 1 refuses every value with a
  \<open>ValueError\<close>, after the expired entries were dropped.
\<close>

definition ttl_setitem :: "real \<Rightarrow> string \<Rightarrow> pyval \<Rightarrow> TTLCache \<Rightarrow> exn option \<times> TTLCache" where
  "ttl_setitem time key v c =
     (let c1 = ttl_expire time c in
      if 1 > maxsize c1 then (Some (ValueError ''value too large''), c1)
      else
        let es = (if key \<in> set (map ekey (links c1)) then links c1
                  else evict_until_fits (maxsize c1) (links c1))
        in (None, c1\<lparr>links := filter (\<lambda>x. ekey x \<noteq> key) es
                      @ [\<lparr>ekey = key, evalue = v, expires = time + of_int (ttl c1)\<rparr>]\<rparr>))"

text \<open>
  \<open>del cache[key]\<close>: a \<open>KeyError\<close> for a key that is not stored, and also for an expired
  one, which is removed all the same.
\<close>

definition ttl_delitem :: "real \<Rightarrow> string \<Rightarrow> TTLCache \<Rightarrow> exn option \<times> TTLCache" where
  "ttl_delitem time key c =
     (case find (\<lambda>e. ekey e = key) (links c) of
        None \<Rightarrow> (Some (KeyError key), c)
      | Some e \<Rightarrow>
          (if time < expires e then None else Some (KeyError key),
           c\<lparr>links := filter (\<lambda>x. ekey x \<noteq> key) (links c)\<rparr>))"

definition ttl_clear :: "TTLCache \<Rightarrow> TTLCache" where
  "ttl_clear c = c\<lparr>links := []\<rparr>"

definition ttl_keys :: "real \<Rightarrow> TTLCache \<Rightarrow> string list" where
  "ttl_keys time c = map ekey (filter (\<lambda>e. time < expires e) (links c))"

definition ttl_len :: "real \<Rightarrow> TTLCache \<Rightarrow> nat" where
  "ttl_len time c = length (ttl_keys time c)"

text \<open>The counters of \<open>CryptoCache._stats\<close>.\<close>

record stats =
  hits :: int
  misses :: int
  sets :: int
  evictions :: int

record CryptoCache =
  ttl_seconds :: int
  max_size :: int
  cache :: TTLCache
  cstats :: stats

definition CryptoCache_init :: "int \<Rightarrow> int \<Rightarrow> CryptoCache" where
  "CryptoCache_init ttl_s max_s =
     \<lparr>ttl_seconds = ttl_s, max_size = max_s,
      cache = \<lparr>maxsize = max_s, ttl = ttl_s, links = []\<rparr>,
      cstats = \<lparr>hits = 0, misses = 0, sets = 0, evictions = 0\<rparr>\<rparr>"

definition cache_get :: "real \<Rightarrow> string \<Rightarrow> CryptoCache \<Rightarrow> pyval \<times> CryptoCache" where
  "cache_get time key c =
     (case ttl_get time key (cache c) of
        (v, tc) \<Rightarrow>
          if v \<noteq> PNone
          then (v, c\<lparr>cache := tc, cstats := (cstats c)\<lparr>hits := hits (cstats c) + 1\<rparr>\<rparr>)
          else (PNone, c\<lparr>cache := tc, cstats := (cstats c)\<lparr>misses := misses (cstats c) + 1\<rparr>\<rparr>))"

text \<open>\<open>set\<close> swallows every exception of the store, and then counts nothing.\<close>

definition cache_set :: "real \<Rightarrow> string \<Rightarrow> pyval \<Rightarrow> CryptoCache \<Rightarrow> CryptoCache" where
  "cache_set time key v c =
     (case ttl_setitem time key v (cache c) of
        (None, tc) \<Rightarrow> c\<lparr>cache := tc, cstats := (cstats c)\<lparr>sets := sets (cstats c) + 1\<rparr>\<rparr>
      | (Some e, tc) \<Rightarrow> c\<lparr>cache := tc\<rparr>)"

definition cache_delete :: "real \<Rightarrow> string \<Rightarrow> CryptoCache \<Rightarrow> CryptoCache" where
  "cache_delete time key c = c\<lparr>cache := snd (ttl_delitem time key (cache c))\<rparr>"

definition cache_clear :: "CryptoCache \<Rightarrow> CryptoCache" where
  "cache_clear c = c\<lparr>cache := ttl_clear (cache c)\<rparr>"

text \<open>\<open>key.startswith(pattern)\<close>.\<close>

definition startswith :: "string \<Rightarrow> string \<Rightarrow> bool" where
  "startswith key pattern \<longleftrightarrow> take (length pattern) key = pattern"

text \<open>
  \<open>invalidate_pattern\<close> deletes the matching keys one by one; a \<open>KeyError\<close> of a deletion
  would leave the function with the keys deleted so far.
\<close>

fun delete_all :: "real \<Rightarrow> string list \<Rightarrow> TTLCache \<Rightarrow> exn option \<times> TTLCache" where
  "delete_all time [] tc = (None, tc)"
| "delete_all time (k # ks) tc =
     (case ttl_delitem time k tc of
        (Some e, tc') \<Rightarrow> (Some e, tc')
      | (None, tc') \<Rightarrow> delete_all time ks tc')"

definition cache_invalidate_pattern ::
  "real \<Rightarrow> string \<Rightarrow> CryptoCache \<Rightarrow> (exn + int) \<times> CryptoCache" where
  "cache_invalidate_pattern time pattern c =
     (let keys_to_delete = filter (\<lambda>key. startswith key pattern) (ttl_keys time (cache c)) in
      case delete_all time keys_to_delete (cache c) of
        (Some e, tc) \<Rightarrow> (Inl e, c\<lparr>cache := tc\<rparr>)
      | (None, tc) \<Rightarrow> (Inr (int (length keys_to_delete)), c\<lparr>cache := tc\<rparr>))"

text \<open>
  What \<open>get_stats\<close> reports, but for \<open>hit_rate\<close>, which is a rounded float.
\<close>

record report =
  r_hits :: int
  r_misses :: int
  r_sets :: int
  r_evictions :: int
  r_size :: int
  r_max_size :: int
  r_total_requests :: int

definition get_stats :: "real \<Rightarrow> CryptoCache \<Rightarrow> report" where
  "get_stats time c =
     \<lparr>r_hits = hits (cstats c), r_misses = misses (cstats c), r_sets = sets (cstats c),
      r_evictions = evictions (cstats c), r_size = int (ttl_len time (cache c)),
      r_max_size = max_size c,
      r_total_requests = hits (cstats c) + misses (cstats c)\<rparr>"

text \<open>A cache operation, run at a timer reading.\<close>

datatype cache_op =
    Get string
  | Set string pyval
  | Delete string
  | Clear
  | InvalidatePattern string

fun apply_cache_op :: "real \<times> cache_op \<Rightarrow> CryptoCache \<Rightarrow> CryptoCache" where
  "apply_cache_op (time, Get key) c = snd (cache_get time key c)"
| "apply_cache_op (time, Set key v) c = cache_set time key v c"
| "apply_cache_op (time, Delete key) c = cache_delete time key c"
| "apply_cache_op (time, Clear) c = cache_clear c"
| "apply_cache_op (time, InvalidatePattern p) c = snd (cache_invalidate_pattern time p c)"

fun run_cache :: "(real \<times> cache_op) list \<Rightarrow> CryptoCache \<Rightarrow> CryptoCache" where
  "run_cache [] c = c"
| "run_cache (x # xs) c = run_cache xs (apply_cache_op x c)"

lemma apply_cache_op_evictions:
  "evictions (cstats (apply_cache_op x c)) = evictions (cstats c)"
proof (cases x)
  case (Pair time op)
  show ?thesis
  proof (cases op)
    case (Get key)
    with Pair show ?thesis by (simp add: cache_get_def split: prod.splits)
  next
    case (Set key v)
    with Pair show ?thesis by (simp add: cache_set_def split: prod.splits option.splits)
  next
    case (Delete key)
    with Pair show ?thesis by (simp add: cache_delete_def)
  next
    case Clear
    with Pair show ?thesis by (simp add: cache_clear_def)
  next
    case (InvalidatePattern p)
    with Pair show ?thesis
      by (simp add: cache_invalidate_pattern_def Let_def split: prod.splits option.splits)
  qed
qed

lemma run_cache_evictions:
  "evictions (cstats (run_cache ops c)) = evictions (cstats c)"
  by (induction ops arbitrary: c) (simp_all add: apply_cache_op_evictions)

text \<open>
  C10. After any sequence of \<open>get\<close>, \<open>set\<close>, \<open>delete\<close>, \<open>clear\<close> and \<open>invalidate_pattern\<close> on
  a new cache of any ttl and any \<open>max_size\<close>, at any timer readings, the \<open>evictions\<close> that
  \<open>get_stats\<close> reports is 0.
\<close>

theorem evictions_counter_stays_zero:
  "r_evictions (get_stats time (run_cache ops (CryptoCache_init ttl_s max_s))) = 0"
  by (simp add: get_stats_def run_cache_evictions) (simp add: CryptoCache_init_def)

text \<open>
  An instance in which the store does evict: three keys are set in a cache of size 2;
  the first key is gone, three sets are counted, and the evictions counter is still 0.
\<close>

theorem evictions_counter_stays_zero_witness:
  "r_evictions (get_stats 3
      (run_cache [(0, Set ''a'' (PStr ''1'')), (1, Set ''b'' (PStr ''2'')),
                  (2, Set ''c'' (PStr ''3''))] (CryptoCache_init 300 2))) = 0
   \<and> map ekey (links (cache
      (run_cache [(0, Set ''a'' (PStr ''1'')), (1, Set ''b'' (PStr ''2'')),
                  (2, Set ''c'' (PStr ''3''))] (CryptoCache_init 300 2)))) = [''b'', ''c'']
   \<and> r_sets (get_stats 3
      (run_cache [(0, Set ''a'' (PStr ''1'')), (1, Set ''b'' (PStr ''2'')),
                  (2, Set ''c'' (PStr ''3''))] (CryptoCache_init 300 2))) = 3"
  using evictions_counter_stays_zero[of 3
      "[(0, Set ''a'' (PStr ''1'')), (1, Set ''b'' (PStr ''2'')), (2, Set ''c'' (PStr ''3''))]"
      300 2]
  by (simp add: get_stats_def CryptoCache_init_def cache_set_def ttl_setitem_def ttl_expire_def
      Let_def)

section \<open>MD5 (\<open>hashlib.md5\<close>), as RFC 1321 defines it\<close>

text \<open>
  A 32-bit word is an \<open>int\<close> in \<open>0 ..< 2 ^ 32\<close>; additions wrap around by \<open>mod 2 ^ 32\<close>,
  written out.
\<close>

definition md5_shifts :: "nat list" where
  "md5_shifts =
     [7, 12, 17, 22, 7, 12, 17, 22, 7, 12, 17, 22, 7, 12, 17, 22,
      5, 9, 14, 20, 5, 9, 14, 20, 5, 9, 14, 20, 5, 9, 14, 20,
      4, 11, 16, 23, 4, 11, 16, 23, 4, 11, 16, 23, 4, 11, 16, 23,
      6, 10, 15, 21, 6, 10, 15, 21, 6, 10, 15, 21, 6, 10, 15, 21]"

definition md5_sines :: "int list" where
  "md5_sines =
     [0xd76aa478, 0xe8c7b756, 0x242070db, 0xc1bdceee, 0xf57c0faf, 0x4787c62a, 0xa8304613,
      0xfd469501, 0x698098d8, 0x8b44f7af, 0xffff5bb1, 0x895cd7be, 0x6b901122, 0xfd987193,
      0xa679438e, 0x49b40821, 0xf61e2562, 0xc040b340, 0x265e5a51, 0xe9b6c7aa, 0xd62f105d,
      0x02441453, 0xd8a1e681, 0xe7d3fbc8, 0x21e1cde6, 0xc33707d6, 0xf4d50d87, 0x455a14ed,
      0xa9e3e905, 0xfcefa3f8, 0x676f02d9, 0x8d2a4c8a, 0xfffa3942, 0x8771f681, 0x6d9d6122,
      0xfde5380c, 0xa4beea44, 0x4bdecfa9, 0xf6bb4b60, 0xbebfbc70, 0x289b7ec6, 0xeaa127fa,
      0xd4ef3085, 0x04881d05, 0xd9d4d039, 0xe6db99e5, 0x1fa27cf8, 0xc4ac5665, 0xf4292244,
      0x432aff97, 0xab9423a7, 0xfc93a039, 0x655b59c3, 0x8f0ccc92, 0xffeff47d, 0x85845dd1,
      0x6fa87e4f, 0xfe2ce6e0, 0xa3014314, 0x4e0811a1, 0xf7537e82, 0xbd3af235, 0x2ad7d2bb,
      0xeb86d391]"

definition w32 :: "int \<Rightarrow> int" where
  "w32 x = x mod 4294967296"

definition not32 :: "int \<Rightarrow> int" where
  "not32 x = 4294967295 - x"

definition rotl32 :: "nat \<Rightarrow> int \<Rightarrow> int" where
  "rotl32 n x = w32 (x * 2 ^ n) + x div 2 ^ (32 - n)"

text \<open>The message with its padding: a 1 bit, zeros, and the length in bits on 8 bytes.\<close>

definition le_bytes :: "nat \<Rightarrow> int \<Rightarrow> int list" where
  "le_bytes k n = map (\<lambda>i. (n div 256 ^ i) mod 256) [0..<k]"

definition md5_pad :: "int list \<Rightarrow> int list" where
  "md5_pad bs =
     bs @ [128] @ replicate ((119 - length bs mod 64) mod 64) 0
        @ le_bytes 8 ((8 * int (length bs)) mod 2 ^ 64)"

fun le_words :: "int list \<Rightarrow> int list" where
  "le_words (b0 # b1 # b2 # b3 # bs) =
     (b0 + 256 * b1 + 65536 * b2 + 16777216 * b3) # le_words bs"
| "le_words bs = []"

type_synonym md5_state = "int \<times> int \<times> int \<times> int"

text \<open>The round function and the message word of step \<open>i\<close>.\<close>

definition md5_f :: "nat \<Rightarrow> int \<Rightarrow> int \<Rightarrow> int \<Rightarrow> int" where
  "md5_f i b c d =
     (if i < 16 then (b AND c) OR (not32 b AND d)
      else if i < 32 then (d AND b) OR (not32 d AND c)
      else if i < 48 then b XOR c XOR d
      else c XOR (b OR not32 d))"

definition md5_g :: "nat \<Rightarrow> nat" where
  "md5_g i =
     (if i < 16 then i
      else if i < 32 then (5 * i + 1) mod 16
      else if i < 48 then (3 * i + 5) mod 16
      else (7 * i) mod 16)"

fun md5_step :: "int list \<Rightarrow> md5_state \<Rightarrow> nat \<Rightarrow> md5_state" where
  "md5_step m (a, b, c, d) i =
     (d, w32 (b + rotl32 (md5_shifts ! i)
                    (w32 (md5_f i b c d + a + md5_sines ! i + m ! md5_g i))), b, c)"

fun md5_add :: "md5_state \<Rightarrow> md5_state \<Rightarrow> md5_state" where
  "md5_add (a0, b0, c0, d0) (a, b, c, d) = (w32 (a0 + a), w32 (b0 + b), w32 (c0 + c), w32 (d0 + d))"

definition md5_block :: "md5_state \<Rightarrow> int list \<Rightarrow> md5_state" where
  "md5_block st m = md5_add st (foldl (md5_step m) st [0..<64])"

fun md5_blocks :: "md5_state \<Rightarrow> int list \<Rightarrow> md5_state" where
  "md5_blocks st ws =
     (if length ws < 16 then st else md5_blocks (md5_block st (take 16 ws)) (drop 16 ws))"

definition hex_digit :: "int \<Rightarrow> char" where
  "hex_digit n = ''0123456789abcdef'' ! nat (n mod 16)"

definition hex_byte :: "int \<Rightarrow> string" where
  "hex_byte b = [hex_digit (b div 16), hex_digit b]"

definition md5_bytes :: "int list \<Rightarrow> md5_state" where
  "md5_bytes bs =
     md5_blocks (0x67452301, 0xefcdab89, 0x98badcfe, 0x10325476) (le_words (md5_pad bs))"

fun md5_hex :: "md5_state \<Rightarrow> string" where
  "md5_hex (a, b, c, d) = concat (map (\<lambda>w. concat (map hex_byte (le_bytes 4 w))) [a, b, c, d])"

definition md5_hexdigest :: "string \<Rightarrow> string" where
  "md5_hexdigest s = md5_hex (md5_bytes (map of_char s))"

section \<open>The cache key (\<open>CryptoCache._generate_key\<close>)\<close>

text \<open>
  \<open>json.dumps\<close> with its defaults (\<open>ensure_ascii\<close>, separators \<open>", "\<close> and \<open>": "\<close>) and
  \<open>sort_keys=True\<close>, on the values of \<open>pyval\<close>; a tuple is written as a list.
\<close>

function show_nat :: "nat \<Rightarrow> string" where
  "show_nat n =
     (if n < 10 then [''0123456789'' ! n]
      else show_nat (n div 10) @ [''0123456789'' ! (n mod 10)])"
  by pat_completeness auto
termination
  by (relation "measure id") auto

definition show_int :: "int \<Rightarrow> string" where
  "show_int i = (if i < 0 then CHR ''-'' # show_nat (nat (- i)) else show_nat (nat i))"

definition escape_char :: "char \<Rightarrow> string" where
  "escape_char c =
     (if c = CHR 0x22 then [CHR 0x5C, CHR 0x22]
      else if c = CHR 0x5C then [CHR 0x5C, CHR 0x5C]
      else if c = CHR 0x0A then [CHR 0x5C, CHR ''n'']
      else if c = CHR 0x0D then [CHR 0x5C, CHR ''r'']
      else if c = CHR 0x09 then [CHR 0x5C, CHR ''t'']
      else if c = CHR 0x08 then [CHR 0x5C, CHR ''b'']
      else if c = CHR 0x0C then [CHR 0x5C, CHR ''f'']
      else if (of_char c :: nat) < 32 \<or> (of_char c :: nat) > 126
        then [CHR 0x5C, CHR ''u'', CHR ''0'', CHR ''0''] @ hex_byte (of_char c)
      else [c])"

definition json_string :: "string \<Rightarrow> string" where
  "json_string s = CHR 0x22 # concat (map escape_char s) @ [CHR 0x22]"

fun join :: "string \<Rightarrow> string list \<Rightarrow> string" where
  "join sep [] = []"
| "join sep [x] = x"
| "join sep (x # y # ys) = x @ sep @ join sep (y # ys)"

text \<open>
  The items of a dict are written in the order of their keys: each item is rendered with
  its key, and the rendered items are sorted by key.
\<close>

fun json_dumps :: "pyval \<Rightarrow> string" where
  "json_dumps PNone = ''null''"
| "json_dumps (PBool b) = (if b then ''true'' else ''false'')"
| "json_dumps (PInt i) = show_int i"
| "json_dumps (PFloat s) = s"
| "json_dumps (PStr s) = json_string s"
| "json_dumps (PList xs) = ''['' @ join '', '' (map json_dumps xs) @ '']''"
| "json_dumps (PDict kvs) =
     ''{'' @ join '', ''
        (map snd (sort_key fst
           (map (\<lambda>kv. (fst kv, json_string (fst kv) @ '': '' @ json_dumps (snd kv))) kvs)))
       @ ''}''"

text \<open>
  \<open>sorted(kwargs.items())\<close> orders the pairs by key (the keys of a dict are distinct, so
  no two pairs are compared on their values); each pair is a tuple and is written as a
  two-element list.  The key is the prefix, a colon and the MD5 digest of that text.
\<close>

definition key_data :: "(string \<times> pyval) list \<Rightarrow> string" where
  "key_data kwargs = json_dumps (PList (map (\<lambda>(k, v). PList [PStr k, v]) (sort_key fst kwargs)))"

definition generate_key :: "string \<Rightarrow> (string \<times> pyval) list \<Rightarrow> string" where
  "generate_key prefix kwargs = prefix @ '':'' @ md5_hexdigest (key_data kwargs)"

lemma replicate_numeral: "replicate (numeral k) x = x # replicate (pred_numeral k) x"
  by (simp add: numeral_eq_Suc)

lemma with_none_words:
  "le_words (md5_pad (map of_char (key_data [(''symbol'', PStr ''BTC''), (''time_start'', PNone)]))) =
     [1931631451, 1868721529, 539763308, 1129595426, 539778338, 1769218651, 1935631725, 1953653108, 1847602210, 1567386741, 32861, 0, 0, 0, 328, 0]"
  by (simp add: key_data_def json_string_def escape_char_def show_int_def md5_pad_def
      le_bytes_def upt_conv_Cons replicate_numeral)

lemma with_none_block:
  "md5_block (0x67452301, 0xefcdab89, 0x98badcfe, 0x10325476)
     [1931631451, 1868721529, 539763308, 1129595426, 539778338, 1769218651, 1935631725, 1953653108, 1847602210, 1567386741, 32861, 0, 0, 0, 328, 0] =
     (1436418790, 1118475141, 1433656274, 451135057)"
  by (simp add: md5_block_def upt_conv_Cons md5_f_def md5_g_def md5_shifts_def md5_sines_def w32_def
      not32_def rotl32_def)

lemma with_none_key:
  "generate_key ''historical'' [(''symbol'', PStr ''BTC''), (''time_start'', PNone)] =
     ''historical:e6029e558593aa42d2db735551c6e31a''"
  by (simp add: generate_key_def md5_hexdigest_def md5_bytes_def with_none_words with_none_block
      le_bytes_def upt_conv_Cons hex_byte_def hex_digit_def)

lemma without_none_words:
  "le_words (md5_pad (map of_char (key_data [(''symbol'', PStr ''BTC'')]))) =
     [1931631451, 1868721529, 539763308, 1129595426, 2153602338, 0, 0, 0, 0, 0, 0, 0, 0, 0, 152, 0]"
  by (simp add: key_data_def json_string_def escape_char_def show_int_def md5_pad_def
      le_bytes_def upt_conv_Cons replicate_numeral)

lemma without_none_block:
  "md5_block (0x67452301, 0xefcdab89, 0x98badcfe, 0x10325476)
     [1931631451, 1868721529, 539763308, 1129595426, 2153602338, 0, 0, 0, 0, 0, 0, 0, 0, 0, 152, 0] =
     (3762031830, 396193532, 1486516526, 4023949252)"
  by (simp add: md5_block_def upt_conv_Cons md5_f_def md5_g_def md5_shifts_def md5_sines_def w32_def
      not32_def rotl32_def)

lemma without_none_key:
  "generate_key ''historical'' [(''symbol'', PStr ''BTC'')] =
     ''historical:d60c3ce0fc6e9d172e719a58c497d8ef''"
  by (simp add: generate_key_def md5_hexdigest_def md5_bytes_def without_none_words without_none_block
      le_bytes_def upt_conv_Cons hex_byte_def hex_digit_def)

lemma sort_key_fst_unique:
  assumes "distinct (map fst p1)" "distinct (map fst p2)" "set p1 = set p2"
  shows "sort_key fst p1 = sort_key fst p2"
proof (rule map_sorted_distinct_set_unique[where f = fst])
  from assms(1) have "inj_on fst (set p1)" by (simp add: distinct_map)
  with assms(3) show "inj_on fst (set (sort_key fst p1) \<union> set (sort_key fst p2))" by simp
  show "sorted (map fst (sort_key fst p1))" "sorted (map fst (sort_key fst p2))" by simp_all
  from assms(1) show "distinct (map fst (sort_key fst p1))" by (simp add: distinct_map)
  from assms(2) show "distinct (map fst (sort_key fst p2))" by (simp add: distinct_map)
  from assms(3) show "set (sort_key fst p1) = set (sort_key fst p2)" by simp
qed

lemma length_join:
  "length (join sep xs) = sum_list (map (\<lambda>x. length x + length sep) xs) - length sep"
  by (induction sep xs rule: join.induct) auto

lemma sum_list_insort_key:
  "sum_list (map f (insort_key g x xs)) = f x + sum_list (map f xs)" for f :: "'a \<Rightarrow> nat"
  by (induction xs) auto

lemma sum_list_sort_key:
  "sum_list (map f (sort_key g xs)) = sum_list (map f xs)" for f :: "'a \<Rightarrow> nat"
  by (induction xs) (simp_all add: sum_list_insort_key)

lemma sum_list_filter_le:
  "sum_list (map w (filter P xs)) \<le> sum_list (map w xs)" for w :: "'a \<Rightarrow> nat"
  by (induction xs) auto

lemma sum_list_filter_less:
  fixes w :: "'a \<Rightarrow> nat"
  assumes "\<exists>x \<in> set xs. \<not> P x" and "\<And>x. 0 < w x"
  shows "sum_list (map w (filter P xs)) < sum_list (map w xs)"
  using assms(1)
proof (induction xs)
  case Nil
  then show ?case by simp
next
  case (Cons x xs)
  show ?case
  proof (cases "P x")
    case True
    with Cons show ?thesis by auto
  next
    case False
    with sum_list_filter_le[of w P xs] assms(2)[of x] show ?thesis
      by (simp add: less_Suc_eq_le add_pos_nonneg le_imp_less_Suc trans_less_add2)
  qed
qed

lemma length_key_data:
  "length (key_data p) =
     2 + (sum_list (map (\<lambda>kv. length (json_dumps (PList [PStr (fst kv), snd kv])) + 2) p) - 2)"
proof -
  have "map (\<lambda>x. length x + length '', '')
          (map json_dumps (map (\<lambda>(k, v). PList [PStr k, v]) (sort_key fst p)))
        = map (\<lambda>kv. length (json_dumps (PList [PStr (fst kv), snd kv])) + 2) (sort_key fst p)"
    by (simp add: case_prod_beta)
  then show ?thesis
    unfolding key_data_def
    by (simp only: json_dumps.simps length_append length_join sum_list_sort_key)
       (simp add: case_prod_beta)
qed

lemma key_data_sanitized_differs:
  assumes "sanitize_parameters p \<noteq> p"
  shows "key_data (sanitize_parameters p) \<noteq> key_data p"
proof -
  let ?w = "\<lambda>kv. length (json_dumps (PList [PStr (fst kv), snd kv])) + 2"
  let ?P = "\<lambda>(k, v). v \<noteq> PNone"
  from assms have ex: "\<exists>x \<in> set p. \<not> ?P x"
    by (simp add: sanitize_parameters_def filter_id_conv)
  have pos: "\<And>x. 0 < ?w x" by simp
  have big: "\<And>x. 2 < ?w x" by simp
  from sum_list_filter_less[of p ?P ?w, OF ex pos]
  have less: "sum_list (map ?w (filter ?P p)) < sum_list (map ?w p)" .
  from ex obtain x where "x \<in> set p" by blast
  then have "?w x \<le> sum_list (map ?w p)"
    by (induction p) auto
  with big[of x] have "2 < sum_list (map ?w p)" by linarith
  with less have "length (key_data (filter ?P p)) < length (key_data p)"
    unfolding length_key_data by linarith
  then show ?thesis by (auto simp: sanitize_parameters_def)
qed

text \<open>
  C3, as the claim states it, fails: \<open>_generate_key\<close> drops nothing.  The historical-data
  tool passes \<open>time_start=None\<close> when the caller gave no start time; the key then differs
  from the key of the same call without the parameter, although the two parameter sets
  are equal once the \<open>None\<close> values are dropped.
\<close>

theorem none_parameter_changes_key_counterexample:
  "set (sanitize_parameters [(''symbol'', PStr ''BTC''), (''time_start'', PNone)])
     = set (sanitize_parameters [(''symbol'', PStr ''BTC'')])
   \<and> generate_key ''historical'' [(''symbol'', PStr ''BTC''), (''time_start'', PNone)]
     = ''historical:e6029e558593aa42d2db735551c6e31a''
   \<and> generate_key ''historical'' [(''symbol'', PStr ''BTC'')]
     = ''historical:d60c3ce0fc6e9d172e719a58c497d8ef''
   \<and> generate_key ''historical'' [(''symbol'', PStr ''BTC''), (''time_start'', PNone)]
     \<noteq> generate_key ''historical'' [(''symbol'', PStr ''BTC'')]"
  by (simp add: with_none_key without_none_key sanitize_parameters_def)

text \<open>
  C3, amended: for every prefix and every two keyword-argument dicts with the same
  (name, value) pairs, the \<open>None\<close> values counted like any other value, the keys are equal:
  the pairs are sorted by name before they are serialised and hashed, so the order in
  which the parameters are passed never affects the key.  Nothing is dropped before
  hashing: for every mapping with a \<open>None\<close>-valued parameter, the text that is hashed
  differs from the text hashed for the mapping without its \<open>None\<close>-valued parameters, so
  the two keys are equal only if MD5 gives these two different texts the same digest.
\<close>

theorem generate_key_sorts_and_keeps_none:
  assumes "distinct (map fst p1)" and "distinct (map fst p2)" and "set p1 = set p2"
  shows "generate_key prefix p1 = generate_key prefix p2
    \<and> (sanitize_parameters p \<noteq> p \<longrightarrow>
          key_data (sanitize_parameters p) \<noteq> key_data p
          \<and> (generate_key prefix (sanitize_parameters p) = generate_key prefix p
               \<longleftrightarrow> md5_hexdigest (key_data (sanitize_parameters p))
                      = md5_hexdigest (key_data p)))"
proof (intro conjI impI)
  show "generate_key prefix p1 = generate_key prefix p2"
    using sort_key_fst_unique[OF assms] by (simp add: generate_key_def key_data_def)
next
  assume "sanitize_parameters p \<noteq> p"
  then show "key_data (sanitize_parameters p) \<noteq> key_data p"
    by (rule key_data_sanitized_differs)
next
  show "generate_key prefix (sanitize_parameters p) = generate_key prefix p
          \<longleftrightarrow> md5_hexdigest (key_data (sanitize_parameters p)) = md5_hexdigest (key_data p)"
    by (simp add: generate_key_def)
qed

theorem generate_key_sorts_and_keeps_none_witness:
  "distinct (map fst [(''symbol'', PStr ''BTC''), (''convert'', PStr ''USD'')])
   \<and> distinct (map fst [(''convert'', PStr ''USD''), (''symbol'', PStr ''BTC'')])
   \<and> set [(''symbol'', PStr ''BTC''), (''convert'', PStr ''USD'')]
       = set [(''convert'', PStr ''USD''), (''symbol'', PStr ''BTC'')]
   \<and> generate_key ''test'' [(''symbol'', PStr ''BTC''), (''convert'', PStr ''USD'')]
       = generate_key ''test'' [(''convert'', PStr ''USD''), (''symbol'', PStr ''BTC'')]
   \<and> sanitize_parameters [(''symbol'', PStr ''BTC''), (''time_start'', PNone)]
       \<noteq> [(''symbol'', PStr ''BTC''), (''time_start'', PNone)]
   \<and> key_data (sanitize_parameters [(''symbol'', PStr ''BTC''), (''time_start'', PNone)])
       \<noteq> key_data [(''symbol'', PStr ''BTC''), (''time_start'', PNone)]"
proof -
  have h: "distinct (map fst [(''symbol'', PStr ''BTC''), (''convert'', PStr ''USD'')])"
    "distinct (map fst [(''convert'', PStr ''USD''), (''symbol'', PStr ''BTC'')])"
    "set [(''symbol'', PStr ''BTC''), (''convert'', PStr ''USD'')]
       = set [(''convert'', PStr ''USD''), (''symbol'', PStr ''BTC'')]"
    by auto
  have n: "sanitize_parameters [(''symbol'', PStr ''BTC''), (''time_start'', PNone)]
       \<noteq> [(''symbol'', PStr ''BTC''), (''time_start'', PNone)]"
    by (simp add: sanitize_parameters_def)
  from generate_key_sorts_and_keeps_none[OF h, of "''test''"
      "[(''symbol'', PStr ''BTC''), (''time_start'', PNone)]"] h n
  show ?thesis by blast
qed

lemma status_200_request:
  assumes "0 < period_seconds rl" and "1 \<le> requests_per_period rl"
    and "0 \<le> max_retries c"
    and "srv 0 = Responds r" and "status_code r = 200" and "json_body r = Inr data"
  shows "\<exists>rl' w'. make_request c srv endpoint params verb rl w = Some (Inr data, rl', w')
           \<and> http_attempts (events w') = http_attempts (events w) + 1"
proof -
  let ?req = "request_event c endpoint params verb"
  from make_request_run[OF assms(1,2), of w c srv endpoint params verb] obtain rl' w1 pre where
    pre: "token_wait pre" "events w1 = events w @ pre" and
    run: "make_request c srv endpoint params verb rl w =
            Some (fst (request_loop (max_retries c) srv ?req 0 None w1), rl',
                  snd (request_loop (max_retries c) srv ?req 0 None w1))"
    by blast
  have att: "attempt (srv 0) = Inr data"
    using assms(4,5,6) by simp
  have loop: "request_loop (max_retries c) srv ?req 0 None w1 = (Inr data, emit ?req w1)"
    using request_loop_returns[of "max_retries c" srv data ?req None w1] assms(3) att by simp
  have "http_attempts (events (emit ?req w1)) = http_attempts (events w) + 1"
    using request_event_is_http[of c endpoint params verb] pre
    by (simp add: emit_def http_attempts_append http_attempts_token_wait[OF pre(1)])
       (simp add: http_attempts_def)
  with run loop show ?thesis by simp
qed

section \<open>Decoding the quotes (\<open>get_cryptocurrency_quotes\<close>)\<close>

text \<open>
  The records are pydantic models.  Building one from a decoded JSON object checks that
  every required field is there and that every field that is there has a value of its
  type; fields that the model does not declare are ignored.  How pydantic converts a
  primitive value (an int, a float, a datetime) is library behaviour and is a parameter
  here, \<open>coerce\<close>; a \<open>str\<close> field takes a string only.
\<close>

datatype prim = TInt | TFloat | TDatetime

definition is_str :: "pyval \<Rightarrow> bool" where
  "is_str v = (case v of PStr s \<Rightarrow> True | _ \<Rightarrow> False)"

definition required :: "(pyval \<Rightarrow> bool) \<Rightarrow> string \<Rightarrow> (string \<times> pyval) list \<Rightarrow> bool" where
  "required p name d = (case map_of d name of None \<Rightarrow> False | Some v \<Rightarrow> p v)"

definition optional :: "(pyval \<Rightarrow> bool) \<Rightarrow> string \<Rightarrow> (string \<times> pyval) list \<Rightarrow> bool" where
  "optional p name d = (case map_of d name of None \<Rightarrow> True | Some v \<Rightarrow> v = PNone \<or> p v)"

definition list_of :: "(pyval \<Rightarrow> bool) \<Rightarrow> pyval \<Rightarrow> bool" where
  "list_of p v = (case v of PList xs \<Rightarrow> list_all p xs | _ \<Rightarrow> False)"

definition dict_of :: "(pyval \<Rightarrow> bool) \<Rightarrow> pyval \<Rightarrow> bool" where
  "dict_of p v = (case v of PDict kvs \<Rightarrow> list_all (\<lambda>kv. p (snd kv)) kvs | _ \<Rightarrow> False)"

definition Quote_valid :: "(prim \<Rightarrow> pyval \<Rightarrow> bool) \<Rightarrow> pyval \<Rightarrow> bool" where
  "Quote_valid coerce v =
     (case v of
        PDict d \<Rightarrow>
          required (coerce TFloat) ''price'' d
          \<and> list_all (\<lambda>name. optional (coerce TFloat) name d)
                [''volume_24h'', ''volume_change_24h'', ''percent_change_1h'',
                 ''percent_change_24h'', ''percent_change_7d'', ''percent_change_30d'',
                 ''market_cap'', ''market_cap_dominance'', ''fully_diluted_market_cap'']
          \<and> optional (coerce TDatetime) ''last_updated'' d
      | _ \<Rightarrow> False)"

definition Platform_valid :: "(prim \<Rightarrow> pyval \<Rightarrow> bool) \<Rightarrow> pyval \<Rightarrow> bool" where
  "Platform_valid coerce v =
     (case v of
        PDict d \<Rightarrow>
          required (coerce TInt) ''id'' d
          \<and> list_all (\<lambda>name. required is_str name d)
                [''name'', ''symbol'', ''slug'', ''token_address'']
      | _ \<Rightarrow> False)"

definition Cryptocurrency_valid ::
  "(prim \<Rightarrow> pyval \<Rightarrow> bool) \<Rightarrow> (string \<times> pyval) list \<Rightarrow> bool" where
  "Cryptocurrency_valid coerce d \<longleftrightarrow>
     required (coerce TInt) ''id'' d
     \<and> list_all (\<lambda>name. required is_str name d) [''name'', ''symbol'', ''slug'']
     \<and> list_all (\<lambda>name. optional (coerce TInt) name d) [''cmc_rank'', ''num_market_pairs'']
     \<and> list_all (\<lambda>name. optional (coerce TFloat) name d)
           [''circulating_supply'', ''total_supply'', ''max_supply'']
     \<and> list_all (\<lambda>name. optional (coerce TDatetime) name d) [''last_updated'', ''date_added'']
     \<and> optional (list_of is_str) ''tags'' d
     \<and> optional (Platform_valid coerce) ''platform'' d
     \<and> optional (dict_of (Quote_valid coerce)) ''quote'' d"

text \<open>
  A decoded \<open>Cryptocurrency\<close>: its symbol, and the fields it was built from.
\<close>

record Cryptocurrency =
  symbol :: string
  raw_fields :: "(string \<times> pyval) list"

text \<open>
  \<open>parse_cryptocurrency_data(data)\<close> is \<open>Cryptocurrency(**data)\<close>: a \<open>TypeError\<close> when
  \<open>data\<close> is not a mapping, pydantic's \<open>ValidationError\<close> when a field is missing or has
  a wrong value.
\<close>

definition parse_cryptocurrency_data ::
  "(prim \<Rightarrow> pyval \<Rightarrow> bool) \<Rightarrow> pyval \<Rightarrow> exn + Cryptocurrency" where
  "parse_cryptocurrency_data coerce data =
     (case data of
        PDict d \<Rightarrow>
          if Cryptocurrency_valid coerce d
          then (case map_of d ''symbol'' of
                  Some (PStr s) \<Rightarrow> Inr \<lparr>symbol = s, raw_fields = d\<rparr>
                | _ \<Rightarrow> Inl ValidationError)
          else Inl ValidationError
      | _ \<Rightarrow> Inl TypeError)"

text \<open>\<open>result[key] = value\<close> on a dict in insertion order.\<close>

fun dict_set :: "string \<Rightarrow> 'v \<Rightarrow> (string \<times> 'v) list \<Rightarrow> (string \<times> 'v) list" where
  "dict_set k v [] = [(k, v)]"
| "dict_set k v ((k', v') # kvs) =
     (if k = k' then (k, v) # kvs else (k', v') # dict_set k v kvs)"

text \<open>The loop \<open>for key, value in data.items()\<close>; it stops at the first exception.\<close>

fun parse_items ::
  "(prim \<Rightarrow> pyval \<Rightarrow> bool) \<Rightarrow> (string \<times> pyval) list \<Rightarrow> (string \<times> Cryptocurrency) list
     \<Rightarrow> exn + (string \<times> Cryptocurrency) list" where
  "parse_items coerce [] result = Inr result"
| "parse_items coerce ((key, v) # items) result =
     (case parse_cryptocurrency_data coerce v of
        Inl e \<Rightarrow> Inl e
      | Inr crypto \<Rightarrow> parse_items coerce items (dict_set (symbol crypto) crypto result))"

text \<open>What \<open>get_cryptocurrency_quotes\<close> does with the decoded body of the response.\<close>

definition decode_quotes ::
  "(prim \<Rightarrow> pyval \<Rightarrow> bool) \<Rightarrow> pyval \<Rightarrow> exn + (string \<times> Cryptocurrency) list" where
  "decode_quotes coerce response =
     (case py_get response ''data'' (PDict []) of
        Inl e \<Rightarrow> Inl e
      | Inr data \<Rightarrow>
          (case data of
             PDict items \<Rightarrow> parse_items coerce items []
           | _ \<Rightarrow> Inl (AttributeError (type_name data) ''items'')))"

text \<open>
  The query parameters: the symbols joined by commas, or else the ids; a call with
  neither raises before any request.
\<close>

definition quotes_params ::
  "string list option \<Rightarrow> int list option \<Rightarrow> string \<Rightarrow> exn + (string \<times> pyval) list" where
  "quotes_params symbols ids convert =
     (case symbols of
        Some (s # ss) \<Rightarrow>
          Inr [(''convert'', PStr convert), (''symbol'', PStr (join '','' (s # ss)))]
      | _ \<Rightarrow>
          (case ids of
             Some (i # is) \<Rightarrow>
               Inr [(''convert'', PStr convert),
                    (''id'', PStr (join '','' (map show_int (i # is))))]
           | _ \<Rightarrow> Inl (ValueError ''Either symbols or ids must be provided'')))"

definition get_cryptocurrency_quotes ::
  "(prim \<Rightarrow> pyval \<Rightarrow> bool) \<Rightarrow> client \<Rightarrow> (nat \<Rightarrow> outcome) \<Rightarrow> string list option \<Rightarrow>
     int list option \<Rightarrow> string \<Rightarrow> RateLimiter \<Rightarrow> world \<Rightarrow>
     ((exn + (string \<times> Cryptocurrency) list) \<times> RateLimiter \<times> world) option" where
  "get_cryptocurrency_quotes coerce c srv symbols ids convert rl w =
     (case quotes_params symbols ids convert of
        Inl e \<Rightarrow> Some (Inl e, rl, w)
      | Inr params \<Rightarrow>
          (case make_request c srv ''cryptocurrency/quotes/latest'' (Some params) ''GET'' rl w of
             None \<Rightarrow> None
           | Some (Inl e, rl', w') \<Rightarrow> Some (Inl e, rl', w')
           | Some (Inr response, rl', w') \<Rightarrow> Some (decode_quotes coerce response, rl', w')))"

text \<open>A coercion that takes every value, and a quotes payload whose quote has no price.\<close>

definition accept_all :: "prim \<Rightarrow> pyval \<Rightarrow> bool" where
  "accept_all t v = True"

definition quote_without_price :: pyval where
  "quote_without_price =
     PDict [(''BTC'',
       PDict [(''id'', PInt 1), (''name'', PStr ''Bitcoin''), (''symbol'', PStr ''BTC''),
              (''slug'', PStr ''bitcoin''),
              (''quote'', PDict [(''USD'', PDict [(''volume_24h'', PInt 30000000000)])])])]"

definition is_invalid_response :: "exn \<Rightarrow> bool" where
  "is_invalid_response e = (case e of InvalidResponseError m \<Rightarrow> True | _ \<Rightarrow> False)"

lemma parse_cryptocurrency_data_raises:
  "parse_cryptocurrency_data coerce v = Inl e \<Longrightarrow> e = ValidationError \<or> e = TypeError"
  by (auto simp: parse_cryptocurrency_data_def split: pyval.splits if_splits option.splits)

lemma parse_items_raises:
  "parse_items coerce items result = Inl e \<Longrightarrow> e = ValidationError \<or> e = TypeError"
  by (induction coerce items result rule: parse_items.induct)
     (auto split: sum.splits dest: parse_cryptocurrency_data_raises)

lemma decode_quotes_raises:
  assumes "decode_quotes coerce response = Inl e"
  shows "e = ValidationError \<or> e = TypeError \<or> (\<exists>t a. e = AttributeError t a)"
proof (cases "py_get response ''data'' (PDict [])")
  case (Inl e')
  with assms py_get_raises[OF Inl] show ?thesis by (auto simp: decode_quotes_def)
next
  case (Inr data)
  with assms show ?thesis
    by (cases data) (auto simp: decode_quotes_def dest: parse_items_raises)
qed

text \<open>
  C5, as the claim states it, fails: a status 200 whose quote record has no \<open>price\<close> makes
  the model constructor raise pydantic's \<open>ValidationError\<close>, and that exception leaves
  \<open>get_cryptocurrency_quotes\<close> as it is, after a single request.
\<close>

theorem missing_price_counterexample:
  "run_result (get_cryptocurrency_quotes accept_all demo_client
        (always (Responds (ok_body quote_without_price)))
        (Some [''BTC'']) None ''USD'' demo_limiter demo_world)
     = Some (Inl ValidationError)
   \<and> \<not> is_invalid_response ValidationError
   \<and> run_events (get_cryptocurrency_quotes accept_all demo_client
        (always (Responds (ok_body quote_without_price)))
        (Some [''BTC'']) None ''USD'' demo_limiter demo_world)
     = Some [TokenAcquired 1, demo_request]"
  apply (simp add: get_cryptocurrency_quotes_def quotes_params_def make_request_def
      run_result_def run_events_def is_invalid_response_def)
  apply (subst wait_for_token.simps)
  apply (subst (2) wait_for_token.simps)
  apply (simp add: demo_limiter_def RateLimiter_init_def demo_world_def acquire_def
      refill_tokens_def Let_def demo_client_def always_def ok_body_def request_loop.simps
      emit_def request_event_def demo_request_def sanitize_parameters_def demo_params_def
      decode_quotes_def quote_without_price_def parse_cryptocurrency_data_def
      Cryptocurrency_valid_def required_def optional_def dict_of_def Quote_valid_def
      accept_all_def is_str_def split: prod.splits)
  done

text \<open>
  C5, amended: when the first HTTP call is answered with status 200 and a JSON body that
  does not decode into quote records, \<open>get_cryptocurrency_quotes\<close> raises the decoding
  exception itself, unwrapped: pydantic's \<open>ValidationError\<close> for a record with a missing or
  wrong field, a \<open>TypeError\<close> for a record that is not an object, an \<open>AttributeError\<close> for
  a body or a \<open>data\<close> entry that is not an object.  It is never an \<open>InvalidResponseError\<close>.
\<close>

theorem decode_failure_escapes_unwrapped:
  assumes "0 < period_seconds rl" and "1 \<le> requests_per_period rl"
    and "0 \<le> max_retries c"
    and "srv 0 = Responds r" and "status_code r = 200" and "json_body r = Inr body"
    and "decode_quotes coerce body = Inl e"
    and "quotes_params symbols ids convert = Inr params"
  shows "(\<exists>rl' w'. get_cryptocurrency_quotes coerce c srv symbols ids convert rl w
                     = Some (Inl e, rl', w')
                   \<and> http_attempts (events w') = http_attempts (events w) + 1)
    \<and> (e = ValidationError \<or> e = TypeError \<or> (\<exists>t a. e = AttributeError t a))
    \<and> \<not> is_invalid_response e"
proof -
  from status_200_request[where srv = srv and r = r and rl = rl and c = c and data = body
      and endpoint = "''cryptocurrency/quotes/latest''" and params = "Some params"
      and verb = "''GET''" and w = w, OF assms(1-6)]
  obtain rl' w' where run:
    "make_request c srv ''cryptocurrency/quotes/latest'' (Some params) ''GET'' rl w
       = Some (Inr body, rl', w')"
    "http_attempts (events w') = http_attempts (events w) + 1"
    by blast
  have "get_cryptocurrency_quotes coerce c srv symbols ids convert rl w = Some (Inl e, rl', w')"
    using run(1) assms(7,8) by (simp add: get_cryptocurrency_quotes_def)
  moreover from decode_quotes_raises[OF assms(7)]
  have k: "e = ValidationError \<or> e = TypeError \<or> (\<exists>t a. e = AttributeError t a)" .
  moreover from k have "\<not> is_invalid_response e"
    by (auto simp: is_invalid_response_def)
  ultimately show ?thesis using run(2) by blast
qed

theorem decode_failure_escapes_unwrapped_witness:
  "(\<exists>rl' w'. get_cryptocurrency_quotes accept_all demo_client
        (always (Responds (ok_body quote_without_price)))
        (Some [''BTC'']) None ''USD'' demo_limiter demo_world
          = Some (Inl ValidationError, rl', w')
      \<and> http_attempts (events w') = 1)
   \<and> \<not> is_invalid_response ValidationError"
proof -
  have "0 < period_seconds demo_limiter" "1 \<le> requests_per_period demo_limiter"
    "0 \<le> max_retries demo_client"
    "always (Responds (ok_body quote_without_price)) 0 = Responds (ok_body quote_without_price)"
    "status_code (ok_body quote_without_price) = 200"
    "json_body (ok_body quote_without_price)
       = Inr (PDict [(''status'', PDict [(''error_code'', PInt 0)]),
                     (''data'', quote_without_price)])"
    "decode_quotes accept_all
       (PDict [(''status'', PDict [(''error_code'', PInt 0)]), (''data'', quote_without_price)])
       = Inl ValidationError"
    "quotes_params (Some [''BTC'']) None ''USD''
       = Inr [(''convert'', PStr ''USD''), (''symbol'', PStr ''BTC'')]"
    by (simp_all add: demo_limiter_def RateLimiter_init_def demo_client_def always_def
        ok_body_def decode_quotes_def quote_without_price_def parse_cryptocurrency_data_def
        Cryptocurrency_valid_def required_def optional_def dict_of_def Quote_valid_def
        accept_all_def is_str_def quotes_params_def)
  from decode_failure_escapes_unwrapped[
      where srv = "always (Responds (ok_body quote_without_price))"
        and r = "ok_body quote_without_price" and rl = demo_limiter and c = demo_client
        and w = demo_world, OF this]
  show ?thesis by (simp add: demo_world_def http_attempts_def)
qed

end
